theory Spec2Isabelle
  imports Main
begin

section \<open>The Go library\<close>

text \<open>
  Two operations of the Go library are not modelled but taken as given: the lower-casing
  of a string that is not ASCII, which \<^verbatim>\<open>strings.ToLower\<close> does rune by rune with the
  Unicode tables (\<^verbatim>\<open>strings.Map(unicode.ToLower, s)\<close>), and the rendering of a task id,
  \<^verbatim>\<open>fmt.Sprintf("%d", int(id))\<close> for a \<^verbatim>\<open>float64\<close>. The type \<open>'f\<close> stands for
  \<^verbatim>\<open>float64\<close>. Every function that reaches one of the two takes them as \<open>lib\<close>.
\<close>

record 'f library =
  unicodeToLower :: "string \<Rightarrow> string"
  sprintInt :: "'f \<Rightarrow> string"

section \<open>Strings\<close>

text \<open>
  Go strings are byte sequences; \<^typ>\<open>string\<close> is a list of bytes as well.
  \<^verbatim>\<open>strings.ToLower\<close> first looks whether every byte is below \<^verbatim>\<open>utf8.RuneSelf\<close> (0x80).
  If so it adds \<^verbatim>\<open>'a' - 'A'\<close> to every byte between \<^verbatim>\<open>'A'\<close> and \<^verbatim>\<open>'Z'\<close>; otherwise it
  maps the runes of the string with the Unicode tables.
\<close>

definition isASCII :: "string \<Rightarrow> bool" where
  "isASCII s = list_all (\<lambda>c. (of_char c :: nat) < 128) s"

definition lowerByte :: "char \<Rightarrow> char" where
  "lowerByte c =
     (if 65 \<le> (of_char c :: nat) \<and> (of_char c :: nat) \<le> 90
      then char_of ((of_char c :: nat) + 32) else c)"

definition ToLower :: "'f library \<Rightarrow> string \<Rightarrow> string" where
  "ToLower lib s = (if isASCII s then map lowerByte s else unicodeToLower lib s)"

text \<open>
  The specification speaks of strings that are equal after case folding. For ASCII
  strings its wording is kept apart from \<^const>\<open>ToLower\<close>: two bytes are the same letter
  when they are equal or one is the upper-case form of the other, and two strings fold
  to the same string when they have the same length and are the same letter at every
  position.
\<close>

definition isUpper :: "char \<Rightarrow> bool" where
  "isUpper c = (65 \<le> (of_char c :: nat) \<and> (of_char c :: nat) \<le> 90)"

definition sameLetter :: "char \<Rightarrow> char \<Rightarrow> bool" where
  "sameLetter a b =
     (a = b \<or> (isUpper a \<and> (of_char a :: nat) + 32 = of_char b)
            \<or> (isUpper b \<and> (of_char b :: nat) + 32 = of_char a))"

definition foldsTo :: "string \<Rightarrow> string \<Rightarrow> bool" where
  "foldsTo s t = list_all2 sameLetter s t"

text \<open>A string is lower-cased when none of its bytes is an upper-case letter.\<close>

definition noUpper :: "string \<Rightarrow> bool" where
  "noUpper s = list_all (\<lambda>c. \<not> isUpper c) s"

text \<open>
  For a string that is not ASCII the only notion of folding at hand is the lower-casing
  of the library.
\<close>

definition caseFoldsTo :: "'f library \<Rightarrow> string \<Rightarrow> string \<Rightarrow> bool" where
  "caseFoldsTo lib s t = (if isASCII s then foldsTo s t else unicodeToLower lib s = t)"

section \<open>Metrics\<close>

text \<open>
  A descriptor carries the fully qualified name, the help text and the names of the
  variable labels. \<^verbatim>\<open>prometheus.BuildFQName\<close> joins its non-empty parts with an
  underscore and yields the empty name when the last part is empty.
\<close>

record Desc =
  fqName :: string
  helpText :: string
  variableLabels :: "string list"

definition BuildFQName :: "string \<Rightarrow> string \<Rightarrow> string \<Rightarrow> string" where
  "BuildFQName namespace subsystem name =
     (if name = [] then []
      else if namespace \<noteq> [] \<and> subsystem \<noteq> [] then namespace @ ''_'' @ subsystem @ ''_'' @ name
      else if namespace \<noteq> [] then namespace @ ''_'' @ name
      else if subsystem \<noteq> [] then subsystem @ ''_'' @ name
      else name)"

definition NewDesc :: "string \<Rightarrow> string \<Rightarrow> string list \<Rightarrow> Desc" where
  "NewDesc n h ls = \<lparr>fqName = n, helpText = h, variableLabels = ls\<rparr>"

definition nameSpace :: string where
  "nameSpace = ''kafka_connect''"

definition isConnectorRunning :: Desc where
  "isConnectorRunning =
     NewDesc (BuildFQName nameSpace ''connector'' ''state_running'')
       ''is the connector running?''
       [''connector'', ''state'', ''worker'']"

definition areConnectorTasksRunning :: Desc where
  "areConnectorTasksRunning =
     NewDesc (BuildFQName nameSpace ''connector'' ''tasks_state'')
       ''the state of tasks. 0-failed, 1-running, 2-unassigned, 3-paused''
       [''connector'', ''state'', ''worker_id'', ''id'']"

text \<open>
  A sample as it travels through the metrics channel: its descriptor, its value and its
  label values. The values are \<^verbatim>\<open>float64\<close> in the source; the exporter only ever
  produces 0, 1, 2, 3 and the length of a slice, which \<^verbatim>\<open>float64\<close> holds exactly, so
  the model keeps them as integers.
\<close>

record Metric =
  desc :: Desc
  val :: int
  labelValues :: "string list"

definition MustNewConstMetric :: "Desc \<Rightarrow> int \<Rightarrow> string list \<Rightarrow> Metric" where
  "MustNewConstMetric d v ls = \<lparr>desc = d, val = v, labelValues = ls\<rparr>"

text \<open>
  \<^verbatim>\<open>MustNewConstMetric\<close> panics when the number of label values differs from the
  number of variable labels of the descriptor. \<open>validMetric\<close> is that check; it holds
  at both places where the exporter builds a sample (\<open>const_metrics_valid\<close>), so the
  model has no branch for the panic.
\<close>

definition validMetric :: "Metric \<Rightarrow> bool" where
  "validMetric m = (length (labelValues m) = length (variableLabels (desc m)))"

text \<open>A gauge owns a descriptor without variable labels and a current value.\<close>

record Gauge =
  gaugeDesc :: Desc
  gaugeValue :: int

definition NewGauge :: "string \<Rightarrow> string \<Rightarrow> string \<Rightarrow> string \<Rightarrow> Gauge" where
  "NewGauge namespace subsystem name h =
     \<lparr>gaugeDesc = NewDesc (BuildFQName namespace subsystem name) h [], gaugeValue = 0\<rparr>"

definition Set_gauge :: "Gauge \<Rightarrow> int \<Rightarrow> Gauge" where
  "Set_gauge g v = g\<lparr>gaugeValue := v\<rparr>"

text \<open>
  The channel carries the gauge itself, and its reader takes the value the gauge has
  when it reads. Within a cycle no gauge is set again after it has been sent, so the
  sample is the value at the moment of the send. Cycles that run at the same time and
  share the gauges are outside the model.
\<close>

definition gaugeMetric :: "Gauge \<Rightarrow> Metric" where
  "gaugeMetric g = \<lparr>desc = gaugeDesc g, val = gaugeValue g, labelValues = []\<rparr>"

section \<open>The upstream payloads\<close>

text \<open>
  \<^verbatim>\<open>type connectors []string\<close> and the three structs of the status payload. The task id
  is a \<^verbatim>\<open>float64\<close>, so of type \<open>'f\<close>, whose zero is the zero value of the field.
\<close>

type_synonym connectors = "string list"

record connector =
  connector_State :: string
  connector_WorkerId :: string

record 'f task =
  task_State :: string
  task_Id :: 'f
  task_WorkerId :: string

record 'f status =
  status_Name :: string
  status_Connector :: connector
  status_Tasks :: "'f task list"

definition zeroConnector :: connector where
  "zeroConnector = \<lparr>connector_State = [], connector_WorkerId = []\<rparr>"

definition zeroTask :: "('f::zero) task" where
  "zeroTask = \<lparr>task_State = [], task_Id = 0, task_WorkerId = []\<rparr>"

definition zeroStatus :: "('f::zero) status" where
  "zeroStatus = \<lparr>status_Name = [], status_Connector = zeroConnector, status_Tasks = []\<rparr>"

section \<open>Decoding JSON\<close>

text \<open>
  \<^verbatim>\<open>encoding/json\<close> is a library of the Go distribution, not of this repository. The
  model follows its documented behaviour for the two target types the exporter decodes
  into. A JSON document is given as its value; a number literal is given as what
  \<^verbatim>\<open>strconv.ParseFloat\<close> makes of it (\<open>None\<close> when the literal is out of the range of
  \<^verbatim>\<open>float64\<close>). An object is the list of its members in the order of the text.
\<close>

datatype 'f json =
    JNull
  | JBool bool
  | JNumber "'f option"
  | JString string
  | JArray "'f json list"
  | JObject "(string \<times> 'f json) list"

text \<open>
  The bytes of a response body: either not a JSON text at all (\<^verbatim>\<open>Unmarshal\<close> returns
  a syntax error before it stores anything), or the text of a JSON value.
\<close>

datatype 'f payload = Malformed | Document "'f json"

fun foldOpt :: "('a \<Rightarrow> 'b \<Rightarrow> 'a option) \<Rightarrow> 'b list \<Rightarrow> 'a \<Rightarrow> 'a option" where
  "foldOpt f [] a = Some a"
| "foldOpt f (x # xs) a = (case f a x of None \<Rightarrow> None | Some a' \<Rightarrow> foldOpt f xs a')"

fun mapOpt :: "('a \<Rightarrow> 'b option) \<Rightarrow> 'a list \<Rightarrow> 'b list option" where
  "mapOpt f [] = Some []"
| "mapOpt f (x # xs) =
     (case f x of None \<Rightarrow> None
      | Some y \<Rightarrow> (case mapOpt f xs of None \<Rightarrow> None | Some ys \<Rightarrow> Some (y # ys)))"

text \<open>
  Decoding into a field that holds \<open>cur\<close>. \<^verbatim>\<open>null\<close> leaves a string, a number or a
  struct as it is and empties a slice; a JSON value of another kind than the field's is
  an \<^verbatim>\<open>UnmarshalTypeError\<close>, which \<^verbatim>\<open>Unmarshal\<close> returns once it has gone through the
  document. The exporter drops the decoded value whenever an error is returned, so the
  model stops at the first one.
\<close>

definition unmarshalString :: "string \<Rightarrow> 'f json \<Rightarrow> string option" where
  "unmarshalString cur j =
     (case j of JString s \<Rightarrow> Some s | JNull \<Rightarrow> Some cur | _ \<Rightarrow> None)"

definition unmarshalFloat64 :: "'f \<Rightarrow> 'f json \<Rightarrow> 'f option" where
  "unmarshalFloat64 cur j =
     (case j of JNumber r \<Rightarrow> r | JNull \<Rightarrow> Some cur | _ \<Rightarrow> None)"

text \<open>
  A member of an object is stored into the field whose \<^verbatim>\<open>json\<close> tag is its name, or
  else into the field whose tag equals the name under Unicode simple case folding; a
  member that matches no field is skipped, whatever its value. The tags of the three
  structs are ASCII. For such a tag the library's comparison walks through the tag \<open>s\<close>
  and the name \<open>t\<close>: an ASCII byte of the name has to be the byte of the tag, or the
  same letter in the other case; a byte of the name from 0x80 on is accepted only
  where the tag has \<^verbatim>\<open>s\<close> and the name the long s (U+017F, the bytes C5 BF), or the
  tag has \<^verbatim>\<open>k\<close> and the name the Kelvin sign (U+212A, the bytes E2 84 AA), the only
  other characters that fold to an ASCII letter.
\<close>

definition isLetter :: "char \<Rightarrow> bool" where
  "isLetter c =
     ((65 \<le> (of_char c :: nat) \<and> (of_char c :: nat) \<le> 90)
      \<or> (97 \<le> (of_char c :: nat) \<and> (of_char c :: nat) \<le> 122))"

fun equalFoldRight :: "string \<Rightarrow> string \<Rightarrow> bool" where
  "equalFoldRight [] t = (t = [])"
| "equalFoldRight (sb # s) [] = False"
| "equalFoldRight (sb # s) (tb # t) =
     (if (of_char tb :: nat) < 128
      then (sb = tb \<or> (isLetter sb \<and> lowerByte sb = lowerByte tb)) \<and> equalFoldRight s t
      else if lowerByte sb = CHR ''s''
      then tb = CHR 0xC5 \<and> take 1 t = [CHR 0xBF] \<and> equalFoldRight s (drop 1 t)
      else if lowerByte sb = CHR ''k''
      then tb = CHR 0xE2 \<and> take 2 t = [CHR 0x84, CHR 0xAA] \<and> equalFoldRight s (drop 2 t)
      else False)"

definition fieldMatches :: "string \<Rightarrow> string \<Rightarrow> bool" where
  "fieldMatches key tag = (key = tag \<or> equalFoldRight tag key)"

definition connectorMember :: "connector \<Rightarrow> string \<times> 'f json \<Rightarrow> connector option" where
  "connectorMember c m =
     (case m of (k, v) \<Rightarrow>
        if fieldMatches k ''state''
        then map_option (\<lambda>s. c\<lparr>connector_State := s\<rparr>) (unmarshalString (connector_State c) v)
        else if fieldMatches k ''worker_id''
        then map_option (\<lambda>s. c\<lparr>connector_WorkerId := s\<rparr>) (unmarshalString (connector_WorkerId c) v)
        else Some c)"

definition unmarshalConnector :: "connector \<Rightarrow> 'f json \<Rightarrow> connector option" where
  "unmarshalConnector cur j =
     (case j of JObject ms \<Rightarrow> foldOpt connectorMember ms cur | JNull \<Rightarrow> Some cur | _ \<Rightarrow> None)"

definition taskMember :: "'f task \<Rightarrow> string \<times> 'f json \<Rightarrow> 'f task option" where
  "taskMember t m =
     (case m of (k, v) \<Rightarrow>
        if fieldMatches k ''state''
        then map_option (\<lambda>s. t\<lparr>task_State := s\<rparr>) (unmarshalString (task_State t) v)
        else if fieldMatches k ''id''
        then map_option (\<lambda>x. t\<lparr>task_Id := x\<rparr>) (unmarshalFloat64 (task_Id t) v)
        else if fieldMatches k ''worker_id''
        then map_option (\<lambda>s. t\<lparr>task_WorkerId := s\<rparr>) (unmarshalString (task_WorkerId t) v)
        else Some t)"

definition unmarshalTask :: "'f task \<Rightarrow> 'f json \<Rightarrow> 'f task option" where
  "unmarshalTask cur j =
     (case j of JObject ms \<Rightarrow> foldOpt taskMember ms cur | JNull \<Rightarrow> Some cur | _ \<Rightarrow> None)"

text \<open>
  A JSON array decoded into a slice: the library documents that it resets the length
  of the slice to zero and appends each element, so every element starts from the zero
  value of its type.
\<close>

definition unmarshalTasks :: "('f::zero) json \<Rightarrow> 'f task list option" where
  "unmarshalTasks j =
     (case j of JArray vs \<Rightarrow> mapOpt (unmarshalTask zeroTask) vs | JNull \<Rightarrow> Some [] | _ \<Rightarrow> None)"

definition statusMember :: "('f::zero) status \<Rightarrow> string \<times> 'f json \<Rightarrow> 'f status option" where
  "statusMember st m =
     (case m of (k, v) \<Rightarrow>
        if fieldMatches k ''name''
        then map_option (\<lambda>s. st\<lparr>status_Name := s\<rparr>) (unmarshalString (status_Name st) v)
        else if fieldMatches k ''connector''
        then map_option (\<lambda>c. st\<lparr>status_Connector := c\<rparr>) (unmarshalConnector (status_Connector st) v)
        else if fieldMatches k ''tasks''
        then map_option (\<lambda>ts. st\<lparr>status_Tasks := ts\<rparr>) (unmarshalTasks v)
        else Some st)"

definition unmarshalStatus :: "('f::zero) status \<Rightarrow> 'f json \<Rightarrow> 'f status option" where
  "unmarshalStatus cur j =
     (case j of JObject ms \<Rightarrow> foldOpt statusMember ms cur | JNull \<Rightarrow> Some cur | _ \<Rightarrow> None)"

definition unmarshalConnectors :: "'f json \<Rightarrow> connectors option" where
  "unmarshalConnectors j =
     (case j of JArray vs \<Rightarrow> mapOpt (unmarshalString []) vs | JNull \<Rightarrow> Some [] | _ \<Rightarrow> None)"

text \<open>
  \<^verbatim>\<open>json.Unmarshal(output, &connectorsList)\<close> and
  \<^verbatim>\<open>json.Unmarshal(connectorStatusOutput, &connectorStatus)\<close>; both targets are
  freshly declared variables, so decoding starts from the zero value. \<open>None\<close> is a
  returned error.
\<close>

definition Unmarshal_connectors :: "'f payload \<Rightarrow> connectors option" where
  "Unmarshal_connectors p =
     (case p of Malformed \<Rightarrow> None | Document j \<Rightarrow> unmarshalConnectors j)"

definition Unmarshal_status :: "('f::zero) payload \<Rightarrow> 'f status option" where
  "Unmarshal_status p =
     (case p of Malformed \<Rightarrow> None | Document j \<Rightarrow> unmarshalStatus zeroStatus j)"

section \<open>The upstream, seen through the HTTP client\<close>

text \<open>
  \<^verbatim>\<open>client.Get\<close> either returns an error (\<open>None\<close>) or a response. Of a response the
  exporter uses the body only: \<^verbatim>\<open>ioutil.ReadAll\<close> returns an error (\<open>None\<close>) or the
  bytes, and \<^verbatim>\<open>Body.Close\<close> returns an error or not. The status code of the response
  is never looked at. The upstream answers a URL the same way throughout a cycle.
\<close>

record 'f Response =
  readAll :: "'f payload option"
  closeErr :: bool

type_synonym 'f Client = "string \<Rightarrow> 'f Response option"

text \<open>
  What a cycle does, in order: the calls to the upstream with their outcome (\<open>True\<close>
  for success), the lines it logs and the samples it sends through the channel.
\<close>

datatype event =
    EvGet string bool
  | EvReadAll string bool
  | EvClose string bool
  | EvLog string
  | EvSend Metric

fun sent :: "event list \<Rightarrow> Metric list" where
  "sent [] = []"
| "sent (EvSend m # es) = m # sent es"
| "sent (_ # es) = sent es"

section \<open>The exporter\<close>

record Exporter =
  URI :: string
  up :: Gauge
  connectorsCount :: Gauge

definition NewExporter :: "string \<Rightarrow> Exporter" where
  "NewExporter uri =
     \<lparr>URI = uri,
      up = NewGauge nameSpace [] ''up'' ''was the last scrape of kafka connect successful?'',
      connectorsCount = NewGauge nameSpace ''connectors'' ''count'' ''number of deployed connectors''\<rparr>"

text \<open>\<^verbatim>\<open>Describe\<close> forwards to the \<^verbatim>\<open>up\<close> gauge, which sends its own descriptor.\<close>

definition Describe :: "Exporter \<Rightarrow> Desc list" where
  "Describe e = [gaugeDesc (up e)]"

text \<open>The value of the connector sample (lines 131 to 134) and of a task sample (lines 143 to 154).\<close>

definition isRunning :: "'f library \<Rightarrow> string \<Rightarrow> int" where
  "isRunning lib connectorState = (if ToLower lib connectorState = ''running'' then 1 else 0)"

definition state :: "'f library \<Rightarrow> string \<Rightarrow> int" where
  "state lib taskState =
     (if ToLower lib taskState = ''running'' then 1
      else if ToLower lib taskState = ''unassigned'' then 2
      else if ToLower lib taskState = ''paused'' then 3
      else 0)"

definition connectorMetric :: "'f library \<Rightarrow> 'f status \<Rightarrow> Metric" where
  "connectorMetric lib connectorStatus =
     MustNewConstMetric isConnectorRunning
       (isRunning lib (connector_State (status_Connector connectorStatus)))
       [status_Name connectorStatus,
        ToLower lib (connector_State (status_Connector connectorStatus)),
        connector_WorkerId (status_Connector connectorStatus)]"

definition taskMetric :: "'f library \<Rightarrow> 'f status \<Rightarrow> 'f task \<Rightarrow> Metric" where
  "taskMetric lib connectorStatus connectorTask =
     MustNewConstMetric areConnectorTasksRunning
       (state lib (task_State connectorTask))
       [status_Name connectorStatus,
        ToLower lib (task_State connectorTask),
        task_WorkerId connectorTask,
        sprintInt lib (task_Id connectorTask)]"

text \<open>
  One round of the loop of lines 111 to 166. The three \<^verbatim>\<open>continue\<close> statements leave
  the round before a sample is sent; the two later ones also leave it before
  \<^verbatim>\<open>Body.Close\<close> of line 162 is reached.
\<close>

definition collectConnector ::
    "'f library \<Rightarrow> ('f::zero) Client \<Rightarrow> Exporter \<Rightarrow> string \<Rightarrow> event list" where
  "collectConnector lib client e connector =
     (let u = URI e @ ''/connectors/'' @ connector @ ''/status'' in
      case client u of
        None \<Rightarrow> [EvGet u False, EvLog ''Can't get /status for: %v'']
      | Some connectorStatusResponse \<Rightarrow>
          (case readAll connectorStatusResponse of
             None \<Rightarrow> [EvGet u True, EvReadAll u False, EvLog ''Can't read Body for: %v'']
           | Some connectorStatusOutput \<Rightarrow>
               (case Unmarshal_status connectorStatusOutput of
                  None \<Rightarrow>
                    [EvGet u True, EvReadAll u True, EvLog ''Can't decode response for: %v'']
                | Some connectorStatus \<Rightarrow>
                    [EvGet u True, EvReadAll u True, EvSend (connectorMetric lib connectorStatus)]
                    @ map (\<lambda>connectorTask. EvSend (taskMetric lib connectorStatus connectorTask))
                        (status_Tasks connectorStatus)
                    @ (if closeErr connectorStatusResponse
                       then [EvClose u False, EvLog ''Can't close connection to connector: %v'']
                       else [EvClose u True]))))"

primrec collectLoop ::
    "'f library \<Rightarrow> ('f::zero) Client \<Rightarrow> Exporter \<Rightarrow> connectors \<Rightarrow> event list" where
  "collectLoop lib client e [] = []"
| "collectLoop lib client e (connector # rest) =
     collectConnector lib client e connector @ collectLoop lib client e rest"

text \<open>
  The deferred function of lines 82 to 89. It is registered once the listing request has
  returned a response and runs when \<^verbatim>\<open>Collect\<close> returns, whichever \<^verbatim>\<open>return\<close> that is.
\<close>

definition deferredClose :: "Exporter \<Rightarrow> string \<Rightarrow> 'f Response \<Rightarrow> event list" where
  "deferredClose e u response =
     (if closeErr response
      then [EvClose u False, EvLog ''Can't close connection to kafka connect: %v'',
            EvSend (gaugeMetric (up e))]
      else [EvClose u True])"

text \<open>
  \<^verbatim>\<open>Collect\<close> (the name \<open>Collect\<close> is taken by set comprehension): the exporter with
  its gauges as the cycle leaves them, and what the cycle did.
\<close>

definition Collect_metrics ::
    "'f library \<Rightarrow> ('f::zero) Client \<Rightarrow> Exporter \<Rightarrow> Exporter \<times> event list" where
  "Collect_metrics lib client e0 =
     (let e = e0\<lparr>up := Set_gauge (up e0) 0\<rparr>;
          u = URI e @ ''/connectors'' in
      case client u of
        None \<Rightarrow>
          (e, [EvGet u False, EvLog ''Can't scrape kafka connect: %v'', EvSend (gaugeMetric (up e))])
      | Some response \<Rightarrow>
          (case readAll response of
             None \<Rightarrow>
               (e, [EvGet u True, EvReadAll u False, EvLog ''Can't scrape kafka connect: %v'',
                    EvSend (gaugeMetric (up e))]
                   @ deferredClose e u response)
           | Some output \<Rightarrow>
               (case Unmarshal_connectors output of
                  None \<Rightarrow>
                    (e, [EvGet u True, EvReadAll u True, EvLog ''Can't scrape kafka connect: %v'',
                         EvSend (gaugeMetric (up e))]
                        @ deferredClose e u response)
                | Some connectorsList \<Rightarrow>
                    (let e' = e\<lparr>up := Set_gauge (up e) 1\<rparr>;
                         e'' = e'\<lparr>connectorsCount :=
                                  Set_gauge (connectorsCount e') (int (length connectorsList))\<rparr>
                     in (e'', [EvGet u True, EvReadAll u True,
                               EvSend (gaugeMetric (up e'')),
                               EvSend (gaugeMetric (connectorsCount e''))]
                              @ collectLoop lib client e'' connectorsList
                              @ deferredClose e'' u response)))))"

section \<open>Startup\<close>

text \<open>
  Of \<^verbatim>\<open>main\<close> the model keeps the decisions taken before the server starts.
  \<^verbatim>\<open>url.Parse\<close> belongs to the Go library and is a parameter: it returns an error
  (\<open>None\<close>) or a URL, of which \<^verbatim>\<open>main\<close> reads the scheme. Indexing the map
  \<^verbatim>\<open>supportedSchema\<close> with a key it does not hold yields \<^verbatim>\<open>false\<close>.
\<close>

record flags =
  showVersion :: bool
  listenAddress :: string
  metricsPath :: string
  scrapeURI :: string

record URL =
  Scheme :: string

definition supportedSchema :: "string \<rightharpoonup> bool" where
  "supportedSchema = [''http'' \<mapsto> True, ''https'' \<mapsto> True]"

definition index :: "(string \<rightharpoonup> bool) \<Rightarrow> string \<Rightarrow> bool" where
  "index m k = (case m k of None \<Rightarrow> False | Some b \<Rightarrow> b)"

datatype outcome =
    Exit nat
  | ListenAndServe string string Exporter

definition main :: "(string \<Rightarrow> URL option) \<Rightarrow> flags \<Rightarrow> outcome" where
  "main Parse fl =
     (if showVersion fl then Exit 2
      else case Parse (scrapeURI fl) of
             None \<Rightarrow> Exit 1
           | Some parseURI \<Rightarrow>
               if \<not> index supportedSchema (Scheme parseURI) then Exit 1
               else ListenAndServe (listenAddress fl) (metricsPath fl) (NewExporter (scrapeURI fl)))"

section \<open>Notions of the specification\<close>

text \<open>The two kinds of URL a cycle requests.\<close>

definition listingURL :: "Exporter \<Rightarrow> string" where
  "listingURL e = URI e @ ''/connectors''"

definition statusURL :: "Exporter \<Rightarrow> string \<Rightarrow> string" where
  "statusURL e connector = URI e @ ''/connectors/'' @ connector @ ''/status''"

text \<open>The samples of the two gauges of an exporter, at a given value.\<close>

definition upSample :: "Exporter \<Rightarrow> int \<Rightarrow> Metric" where
  "upSample e v = \<lparr>desc = gaugeDesc (up e), val = v, labelValues = []\<rparr>"

definition countSample :: "Exporter \<Rightarrow> int \<Rightarrow> Metric" where
  "countSample e v = \<lparr>desc = gaugeDesc (connectorsCount e), val = v, labelValues = []\<rparr>"

text \<open>
  The listing step fails when the request returns an error, the body cannot be read or
  the bytes do not decode; likewise the fetch of the status of one connector.
\<close>

definition listingFails :: "'f Client \<Rightarrow> Exporter \<Rightarrow> bool" where
  "listingFails client e =
     (case client (listingURL e) of
        None \<Rightarrow> True
      | Some r \<Rightarrow>
          (case readAll r of
             None \<Rightarrow> True
           | Some p \<Rightarrow> (case Unmarshal_connectors p of None \<Rightarrow> True | Some _ \<Rightarrow> False)))"

definition listing :: "'f Client \<Rightarrow> Exporter \<Rightarrow> connectors option" where
  "listing client e =
     (case client (listingURL e) of
        None \<Rightarrow> None
      | Some r \<Rightarrow> (case readAll r of None \<Rightarrow> None | Some p \<Rightarrow> Unmarshal_connectors p))"

definition statusOf :: "('f::zero) Client \<Rightarrow> Exporter \<Rightarrow> string \<Rightarrow> 'f status option" where
  "statusOf client e connector =
     (case client (statusURL e connector) of
        None \<Rightarrow> None
      | Some r \<Rightarrow> (case readAll r of None \<Rightarrow> None | Some p \<Rightarrow> Unmarshal_status p))"

definition statusFetchFails :: "('f::zero) Client \<Rightarrow> Exporter \<Rightarrow> string \<Rightarrow> bool" where
  "statusFetchFails client e connector =
     (case statusOf client e connector of None \<Rightarrow> True | Some _ \<Rightarrow> False)"

text \<open>The number of tasks of the connectors of a list, over the statuses that decode.\<close>

definition taskCount :: "('f::zero) Client \<Rightarrow> Exporter \<Rightarrow> connectors \<Rightarrow> nat" where
  "taskCount client e cs =
     sum_list (map (\<lambda>c. case statusOf client e c of
                           None \<Rightarrow> 0
                         | Some st \<Rightarrow> length (status_Tasks st)) cs)"

text \<open>
  The shape the specification gives for a status payload: an object with a string
  \<^verbatim>\<open>name\<close>, an object \<^verbatim>\<open>connector\<close> with strings \<^verbatim>\<open>state\<close> and \<^verbatim>\<open>worker_id\<close>, and an
  array \<^verbatim>\<open>tasks\<close> of objects with a string \<^verbatim>\<open>state\<close>, a number \<^verbatim>\<open>id\<close> and a string
  \<^verbatim>\<open>worker_id\<close>.
\<close>

definition isString :: "'f json \<Rightarrow> bool" where
  "isString j = (case j of JString _ \<Rightarrow> True | _ \<Rightarrow> False)"

definition isNumber :: "'f json \<Rightarrow> bool" where
  "isNumber j = (case j of JNumber _ \<Rightarrow> True | _ \<Rightarrow> False)"

definition hasMember :: "(string \<times> 'f json) list \<Rightarrow> string \<Rightarrow> ('f json \<Rightarrow> bool) \<Rightarrow> bool" where
  "hasMember ms k P = (case map_of ms k of None \<Rightarrow> False | Some v \<Rightarrow> P v)"

definition connectorShape :: "'f json \<Rightarrow> bool" where
  "connectorShape j =
     (case j of
        JObject ms \<Rightarrow> hasMember ms ''state'' isString \<and> hasMember ms ''worker_id'' isString
      | _ \<Rightarrow> False)"

definition taskShape :: "'f json \<Rightarrow> bool" where
  "taskShape j =
     (case j of
        JObject ms \<Rightarrow>
          hasMember ms ''state'' isString \<and> hasMember ms ''id'' isNumber
          \<and> hasMember ms ''worker_id'' isString
      | _ \<Rightarrow> False)"

definition tasksShape :: "'f json \<Rightarrow> bool" where
  "tasksShape j = (case j of JArray vs \<Rightarrow> list_all taskShape vs | _ \<Rightarrow> False)"

definition statusShape :: "'f json \<Rightarrow> bool" where
  "statusShape j =
     (case j of
        JObject ms \<Rightarrow>
          hasMember ms ''name'' isString \<and> hasMember ms ''connector'' connectorShape
          \<and> hasMember ms ''tasks'' tasksShape
      | _ \<Rightarrow> False)"

text \<open>
  What the decoder accepts instead. A string field takes a string or \<^verbatim>\<open>null\<close>, the id
  a number within range or \<^verbatim>\<open>null\<close>, a struct an object or \<^verbatim>\<open>null\<close>, the task list an
  array or \<^verbatim>\<open>null\<close>; only the members that name a field are looked at.

  A member names a field when its name, case folded, is the tag of the field. Folding
  is written here on its own, not through the comparison of the decoder: it makes an
  ASCII letter lower-case, turns the Kelvin sign into \<^verbatim>\<open>k\<close> and the long s into
  \<^verbatim>\<open>s\<close>, and leaves every other byte.
\<close>

fun foldName :: "string \<Rightarrow> string" where
  "foldName [] = []"
| "foldName (c # cs) =
     (if c = CHR 0xE2 \<and> take 2 cs = [CHR 0x84, CHR 0xAA] then CHR ''k'' # foldName (drop 2 cs)
      else if c = CHR 0xC5 \<and> take 1 cs = [CHR 0xBF] then CHR ''s'' # foldName (drop 1 cs)
      else if isUpper c then char_of ((of_char c :: nat) + 32) # foldName cs
      else c # foldName cs)"

definition namesField :: "string \<Rightarrow> string \<Rightarrow> bool" where
  "namesField key tag = (foldName key = tag)"

definition stringOrNull :: "'f json \<Rightarrow> bool" where
  "stringOrNull j = (case j of JString _ \<Rightarrow> True | JNull \<Rightarrow> True | _ \<Rightarrow> False)"

definition floatOrNull :: "'f json \<Rightarrow> bool" where
  "floatOrNull j = (case j of JNumber (Some _) \<Rightarrow> True | JNull \<Rightarrow> True | _ \<Rightarrow> False)"

definition connectorMemberOk :: "string \<times> 'f json \<Rightarrow> bool" where
  "connectorMemberOk m =
     (case m of (k, v) \<Rightarrow>
        if namesField k ''state'' \<or> namesField k ''worker_id'' then stringOrNull v else True)"

definition connectorOk :: "'f json \<Rightarrow> bool" where
  "connectorOk j =
     (case j of JObject ms \<Rightarrow> list_all connectorMemberOk ms | JNull \<Rightarrow> True | _ \<Rightarrow> False)"

definition taskMemberOk :: "string \<times> 'f json \<Rightarrow> bool" where
  "taskMemberOk m =
     (case m of (k, v) \<Rightarrow>
        if namesField k ''state'' then stringOrNull v
        else if namesField k ''id'' then floatOrNull v
        else if namesField k ''worker_id'' then stringOrNull v
        else True)"

definition taskOk :: "'f json \<Rightarrow> bool" where
  "taskOk j =
     (case j of JObject ms \<Rightarrow> list_all taskMemberOk ms | JNull \<Rightarrow> True | _ \<Rightarrow> False)"

definition tasksOk :: "'f json \<Rightarrow> bool" where
  "tasksOk j = (case j of JArray vs \<Rightarrow> list_all taskOk vs | JNull \<Rightarrow> True | _ \<Rightarrow> False)"

definition statusMemberOk :: "string \<times> 'f json \<Rightarrow> bool" where
  "statusMemberOk m =
     (case m of (k, v) \<Rightarrow>
        if namesField k ''name'' then stringOrNull v
        else if namesField k ''connector'' then connectorOk v
        else if namesField k ''tasks'' then tasksOk v
        else True)"

definition statusOk :: "'f json \<Rightarrow> bool" where
  "statusOk j =
     (case j of JObject ms \<Rightarrow> list_all statusMemberOk ms | JNull \<Rightarrow> True | _ \<Rightarrow> False)"

definition payloadOk :: "'f payload \<Rightarrow> bool" where
  "payloadOk p = (case p of Malformed \<Rightarrow> False | Document j \<Rightarrow> statusOk j)"

text \<open>
  The samples the specification asks for a decoded status: the connector sample, then
  one sample for each task, in the order of the payload. The value of the connector
  sample is 1 when the state folds to \<^verbatim>\<open>running\<close>; the value of a task sample is the
  code of the table of the specification.
\<close>

definition connectorSample :: "'f library \<Rightarrow> 'f status \<Rightarrow> Metric" where
  "connectorSample lib st =
     \<lparr>desc = isConnectorRunning,
      val = (if caseFoldsTo lib (connector_State (status_Connector st)) ''running'' then 1 else 0),
      labelValues =
        [status_Name st, ToLower lib (connector_State (status_Connector st)),
         connector_WorkerId (status_Connector st)]\<rparr>"

definition taskCode :: "'f library \<Rightarrow> string \<Rightarrow> int" where
  "taskCode lib s =
     (if caseFoldsTo lib s ''running'' then 1
      else if caseFoldsTo lib s ''unassigned'' then 2
      else if caseFoldsTo lib s ''paused'' then 3
      else 0)"

definition taskSample :: "'f library \<Rightarrow> 'f status \<Rightarrow> 'f task \<Rightarrow> Metric" where
  "taskSample lib st t =
     \<lparr>desc = areConnectorTasksRunning,
      val = taskCode lib (task_State t),
      labelValues =
        [status_Name st, ToLower lib (task_State t), task_WorkerId t, sprintInt lib (task_Id t)]\<rparr>"

text \<open>The connector samples and the task samples due for the connectors of a list.\<close>

definition connectorSamples ::
    "'f library \<Rightarrow> ('f::zero) Client \<Rightarrow> Exporter \<Rightarrow> connectors \<Rightarrow> Metric list" where
  "connectorSamples lib client e cs =
     concat (map (\<lambda>c. case statusOf client e c of
                          None \<Rightarrow> []
                        | Some st \<Rightarrow> [connectorSample lib st]) cs)"

definition taskSamples ::
    "'f library \<Rightarrow> ('f::zero) Client \<Rightarrow> Exporter \<Rightarrow> connectors \<Rightarrow> Metric list" where
  "taskSamples lib client e cs =
     concat (map (\<lambda>c. case statusOf client e c of
                          None \<Rightarrow> []
                        | Some st \<Rightarrow> map (taskSample lib st) (status_Tasks st)) cs)"

definition statusSamples ::
    "'f library \<Rightarrow> ('f::zero) Client \<Rightarrow> Exporter \<Rightarrow> connectors \<Rightarrow> Metric list" where
  "statusSamples lib client e cs =
     concat (map (\<lambda>c. case statusOf client e c of
                          None \<Rightarrow> []
                        | Some st \<Rightarrow> connectorSample lib st # map (taskSample lib st) (status_Tasks st)) cs)"

text \<open>
  Release of the response bodies, as the specification asks for it: a body obtained by
  a request is closed before the next request is made and before the cycle ends.
  \<open>released b es\<close> reads the events \<open>es\<close> with \<open>b\<close> the body that is open.
\<close>

fun released :: "string option \<Rightarrow> event list \<Rightarrow> bool" where
  "released b [] = (b = None)"
| "released b (EvGet u ok # es) = (b = None \<and> released (if ok then Some u else None) es)"
| "released b (EvClose u ok # es) = (b = Some u \<and> released None es)"
| "released b (EvReadAll u ok # es) = released b es"
| "released b (EvLog l # es) = released b es"
| "released b (EvSend m # es) = released b es"

text \<open>
  The calls of a cycle to the upstream, without the log lines and the samples, and how
  often a cycle calls \<^verbatim>\<open>Close\<close> on the body of a URL.
\<close>

fun calls :: "event list \<Rightarrow> event list" where
  "calls [] = []"
| "calls (EvLog l # es) = calls es"
| "calls (EvSend m # es) = calls es"
| "calls (ev # es) = ev # calls es"


fun closes :: "string \<Rightarrow> event list \<Rightarrow> nat" where
  "closes u [] = 0"
| "closes u (EvClose v ok # es) = (if v = u then 1 else 0) + closes u es"
| "closes u (_ # es) = closes u es"

section \<open>Example upstreams\<close>

text \<open>
  Concrete cycles, with natural numbers for the task ids and their decimal rendering
  for \<^verbatim>\<open>fmt.Sprintf("%d", int(id))\<close>. Every string of the examples is ASCII, so
  the lower-casing of other strings is never asked for; the identity stands in its place.
\<close>

definition digit :: "nat \<Rightarrow> char" where
  "digit n = char_of (48 + n)"

fun decimal :: "nat \<Rightarrow> string" where
  "decimal n = (if n < 10 then [digit n] else decimal (n div 10) @ [digit (n mod 10)])"

declare decimal.simps [simp del]

definition exampleLibrary :: "nat library" where
  "exampleLibrary = \<lparr>unicodeToLower = (\<lambda>s. s), sprintInt = decimal\<rparr>"

definition exampleExporter :: Exporter where
  "exampleExporter = NewExporter ''http://kafka-connect:8083''"

definition exampleStatus :: "nat json" where
  "exampleStatus =
     JObject
       [(''name'', JString ''test-changesets''),
        (''connector'',
           JObject [(''state'', JString ''RUNNING''),
                    (''worker_id'', JString ''kafka-connect:8083'')]),
        (''tasks'',
           JArray [JObject [(''state'', JString ''running''),
                            (''id'', JNumber (Some 0)),
                            (''worker_id'', JString ''kafka-connect:8083'')]]),
        (''type'', JString ''sink'')]"

text \<open>
  The scenario of the specification: one connector with one task. \<open>listingCloseFails\<close>
  tells whether closing the body of the listing response returns an error.
\<close>

definition exampleUpstream :: "bool \<Rightarrow> nat Client" where
  "exampleUpstream listingCloseFails u =
     (if u = ''http://kafka-connect:8083/connectors''
      then Some \<lparr>readAll = Some (Document (JArray [JString ''test-changesets''])),
                 closeErr = listingCloseFails\<rparr>
      else if u = ''http://kafka-connect:8083/connectors/test-changesets/status''
      then Some \<lparr>readAll = Some (Document exampleStatus), closeErr = False\<rparr>
      else None)"

text \<open>The listing answers with bytes that are no JSON text, and closing its body fails.\<close>

definition brokenListing :: "nat Client" where
  "brokenListing u =
     (if u = ''http://kafka-connect:8083/connectors''
      then Some \<lparr>readAll = Some Malformed, closeErr = True\<rparr>
      else None)"

text \<open>The listing names a second connector, whose status request returns an error.\<close>

definition lostConnector :: "nat Client" where
  "lostConnector u =
     (if u = ''http://kafka-connect:8083/connectors''
      then Some \<lparr>readAll = Some (Document (JArray [JString ''lost'', JString ''test-changesets''])),
                 closeErr = False\<rparr>
      else exampleUpstream False u)"

text \<open>
  The listing names a connector for which the upstream answers the status request with
  the body of its 404 response, an object with an error code and a message.
\<close>

definition notFoundBody :: "nat json" where
  "notFoundBody =
     JObject [(''error_code'', JNumber (Some 404)),
              (''message'', JString ''No status found for connector gone'')]"

definition notFound :: "nat Client" where
  "notFound u =
     (if u = ''http://kafka-connect:8083/connectors''
      then Some \<lparr>readAll = Some (Document (JArray [JString ''gone''])), closeErr = False\<rparr>
      else if u = ''http://kafka-connect:8083/connectors/gone/status''
      then Some \<lparr>readAll = Some (Document notFoundBody), closeErr = False\<rparr>
      else None)"

text \<open>The status of the connector is a JSON text with a number where the name belongs.\<close>

definition wrongKind :: "nat Client" where
  "wrongKind u =
     (if u = ''http://kafka-connect:8083/connectors/test-changesets/status''
      then Some \<lparr>readAll = Some (Document (JObject [(''name'', JNumber (Some 7))])),
                 closeErr = False\<rparr>
      else exampleUpstream False u)"

text \<open>
  Statuses whose member names reach a field only through case folding: \<^verbatim>\<open>NAME\<close> with a
  number, and \<^verbatim>\<open>tasks\<close> written with a long s and holding a number.
\<close>

definition upperNameBody :: "nat json" where
  "upperNameBody = JObject [(''NAME'', JNumber (Some 7))]"

definition longSBody :: "nat json" where
  "longSBody =
     JObject [(''name'', JString ''k''),
              ([CHR ''t'', CHR ''a'', CHR 0xC5, CHR 0xBF, CHR ''k'', CHR ''s''], JNumber (Some 5))]"

definition statusBody :: "nat json \<Rightarrow> nat Client" where
  "statusBody j u =
     (if u = ''http://kafka-connect:8083/connectors/test-changesets/status''
      then Some \<lparr>readAll = Some (Document j), closeErr = False\<rparr>
      else exampleUpstream False u)"

definition exampleFlags :: flags where
  "exampleFlags =
     \<lparr>showVersion = False, listenAddress = '':8080'', metricsPath = ''/metrics'',
      scrapeURI = ''ftp://kafka-connect:8083''\<rparr>"

section \<open>Properties\<close>

subsection \<open>Case folding\<close>

lemma lowerByte_upper:
  "isUpper c \<Longrightarrow> (of_char (lowerByte c) :: nat) = of_char c + 32"
  by (simp add: lowerByte_def isUpper_def of_char_of take_bit_eq_mod)

lemma lowerByte_other: "\<not> isUpper c \<Longrightarrow> lowerByte c = c"
  by (auto simp: lowerByte_def isUpper_def)

lemma of_char_inj: "(of_char a :: nat) = of_char b \<Longrightarrow> a = b"
  by simp

lemma sameLetter_iff: "sameLetter a b \<longleftrightarrow> lowerByte a = lowerByte b"
proof
  assume "sameLetter a b"
  then consider "a = b" | "isUpper a" "(of_char a :: nat) + 32 = of_char b"
    | "isUpper b" "(of_char b :: nat) + 32 = of_char a"
    by (auto simp: sameLetter_def)
  then show "lowerByte a = lowerByte b"
  proof cases
    case 1 then show ?thesis by simp
  next
    case 2
    then have "\<not> isUpper b" by (simp add: isUpper_def)
    with 2 show ?thesis
      using lowerByte_upper [of a] lowerByte_other [of b] of_char_inj by metis
  next
    case 3
    then have "\<not> isUpper a" by (simp add: isUpper_def)
    with 3 show ?thesis
      using lowerByte_upper [of b] lowerByte_other [of a] of_char_inj by metis
  qed
next
  assume eq: "lowerByte a = lowerByte b"
  show "sameLetter a b"
  proof (cases "isUpper a")
    case ua: True
    show ?thesis
    proof (cases "isUpper b")
      case True
      with ua eq have "(of_char a :: nat) + 32 = of_char b + 32"
        using lowerByte_upper by metis
      then have "a = b" by simp
      then show ?thesis by (simp add: sameLetter_def)
    next
      case False
      with ua eq have "(of_char a :: nat) + 32 = of_char b"
        using lowerByte_upper [of a] lowerByte_other [of b] by simp
      with ua show ?thesis by (simp add: sameLetter_def)
    qed
  next
    case na: False
    show ?thesis
    proof (cases "isUpper b")
      case True
      with na eq have "(of_char b :: nat) + 32 = of_char a"
        using lowerByte_upper [of b] lowerByte_other [of a] by simp
      with True show ?thesis by (simp add: sameLetter_def)
    next
      case False
      with na eq have "a = b" by (simp add: lowerByte_other)
      then show ?thesis by (simp add: sameLetter_def)
    qed
  qed
qed

lemma foldsTo_iff: "foldsTo s t \<longleftrightarrow> map lowerByte s = map lowerByte t"
proof -
  have "map lowerByte s = map lowerByte t \<longleftrightarrow> list_all2 (=) (map lowerByte s) (map lowerByte t)"
    by (simp add: list_all2_eq)
  also have "\<dots> \<longleftrightarrow> list_all2 (\<lambda>a b. lowerByte a = lowerByte b) s t"
    by (simp add: list_all2_map1 list_all2_map2)
  also have "\<dots> \<longleftrightarrow> foldsTo s t"
  proof -
    have "sameLetter = (\<lambda>a b. lowerByte a = lowerByte b)"
      by (intro ext) (rule sameLetter_iff)
    then show ?thesis by (simp add: foldsTo_def)
  qed
  finally show ?thesis by simp
qed

lemma lowerByte_noUpper: "noUpper t \<Longrightarrow> map lowerByte t = t"
  by (induction t) (simp_all add: noUpper_def lowerByte_other)

lemma not_isUpper_lowerByte: "\<not> isUpper (lowerByte c)"
proof (cases "isUpper c")
  case True
  then have "(of_char (lowerByte c) :: nat) = of_char c + 32" by (rule lowerByte_upper)
  with True show ?thesis by (simp add: isUpper_def)
next
  case False
  then show ?thesis by (simp add: lowerByte_other)
qed

lemma noUpper_map_lowerByte: "noUpper (map lowerByte s)"
  by (induction s) (simp_all add: noUpper_def not_isUpper_lowerByte)

lemma ToLower_ASCII: "isASCII s \<Longrightarrow> ToLower lib s = map lowerByte s"
  by (simp add: ToLower_def)

lemma ToLower_other: "\<not> isASCII s \<Longrightarrow> ToLower lib s = unicodeToLower lib s"
  by (simp add: ToLower_def)

lemma caseFoldsTo_iff: "noUpper t \<Longrightarrow> caseFoldsTo lib s t \<longleftrightarrow> ToLower lib s = t"
  by (simp add: caseFoldsTo_def ToLower_def foldsTo_iff lowerByte_noUpper)

lemma ToLower_folds:
  "isASCII s \<Longrightarrow> foldsTo s (ToLower lib s) \<and> noUpper (ToLower lib s)"
proof -
  assume a: "isASCII s"
  have "map lowerByte (map lowerByte s) = map lowerByte s"
    using lowerByte_noUpper [OF noUpper_map_lowerByte] .
  then show ?thesis
    using a by (simp add: ToLower_ASCII foldsTo_iff noUpper_map_lowerByte)
qed

lemmas lower_eval = ToLower_def isASCII_def lowerByte_def char_of_def bit_Suc_0_iff

lemma noUpper_literals:
  "noUpper ''running''" "noUpper ''unassigned''" "noUpper ''paused''"
  by (simp_all add: noUpper_def isUpper_def)

lemmas caseFoldsTo_literals =
  caseFoldsTo_iff [OF noUpper_literals(1)] caseFoldsTo_iff [OF noUpper_literals(2)]
  caseFoldsTo_iff [OF noUpper_literals(3)]

subsection \<open>The samples of a round and of the loop\<close>

lemma sent_append: "sent (xs @ ys) = sent xs @ sent ys"
  by (induction xs rule: sent.induct) simp_all

lemma sent_map_EvSend: "sent (map (\<lambda>t. EvSend (g t)) ts) = map g ts"
  by (induction ts) simp_all

lemma state_taskCode: "state lib s = taskCode lib s"
  by (simp add: state_def taskCode_def caseFoldsTo_literals)

lemma connectorMetric_sample: "connectorMetric lib st = connectorSample lib st"
  by (simp add: connectorMetric_def connectorSample_def MustNewConstMetric_def isRunning_def
      caseFoldsTo_literals)

lemma taskMetric_sample: "taskMetric lib st t = taskSample lib st t"
  by (simp add: taskMetric_def taskSample_def MustNewConstMetric_def state_taskCode)

lemma sent_collectConnector:
  "sent (collectConnector lib client e c) =
     (case statusOf client e c of
        None \<Rightarrow> []
      | Some st \<Rightarrow> connectorSample lib st # map (taskSample lib st) (status_Tasks st))"
proof -
  have "(\<lambda>t. taskMetric lib st t) = taskSample lib st" for st
    by (intro ext) (rule taskMetric_sample)
  then show ?thesis
    by (simp add: collectConnector_def statusOf_def statusURL_def Let_def sent_append
        sent_map_EvSend connectorMetric_sample split: option.splits)
qed

lemma sent_collectLoop:
  "sent (collectLoop lib client e cs) = statusSamples lib client e cs"
  by (induction cs) (simp_all add: sent_append sent_collectConnector statusSamples_def)

lemma sent_deferredClose:
  "sent (deferredClose e u r) = (if closeErr r then [gaugeMetric (up e)] else [])"
  by (simp add: deferredClose_def)

lemma descs_distinct:
  "isConnectorRunning \<noteq> areConnectorTasksRunning"
  by (simp add: isConnectorRunning_def areConnectorTasksRunning_def NewDesc_def)

lemma desc_connectorSample: "desc (connectorSample lib st) = isConnectorRunning"
  by (simp add: connectorSample_def)

lemma desc_taskSample: "desc (taskSample lib st t) = areConnectorTasksRunning"
  by (simp add: taskSample_def)

lemma filter_connector_statusSamples:
  "filter (\<lambda>m. desc m = isConnectorRunning) (statusSamples lib client e cs) =
     connectorSamples lib client e cs"
proof (induction cs)
  case Nil
  show ?case by (simp add: statusSamples_def connectorSamples_def)
next
  case (Cons c cs)
  have "filter (\<lambda>m. desc m = isConnectorRunning) (map (taskSample lib st) ts) = []" for st ts
    using descs_distinct by (induction ts) (auto simp: desc_taskSample)
  with Cons show ?case
    by (simp add: statusSamples_def connectorSamples_def desc_connectorSample
        split: option.splits)
qed

lemma filter_task_statusSamples:
  "filter (\<lambda>m. desc m = areConnectorTasksRunning) (statusSamples lib client e cs) =
     taskSamples lib client e cs"
proof (induction cs)
  case Nil
  show ?case by (simp add: statusSamples_def taskSamples_def)
next
  case (Cons c cs)
  have "filter (\<lambda>m. desc m = areConnectorTasksRunning) (map (taskSample lib st) ts) =
      map (taskSample lib st) ts" for st ts
    by (induction ts) (simp_all add: desc_taskSample)
  with Cons show ?case
    using descs_distinct
    by (simp add: statusSamples_def taskSamples_def desc_connectorSample split: option.splits)
qed

lemma connectorMetric_valid: "validMetric (connectorMetric lib st)"
  by (simp add: validMetric_def connectorMetric_def MustNewConstMetric_def
      isConnectorRunning_def NewDesc_def)

lemma taskMetric_valid: "validMetric (taskMetric lib st t)"
  by (simp add: validMetric_def taskMetric_def MustNewConstMetric_def
      areConnectorTasksRunning_def NewDesc_def)

lemma const_metrics_valid:
  "m \<in> set (sent (collectLoop lib client e cs)) \<Longrightarrow> validMetric m"
proof (induction cs)
  case Nil
  then show ?case by simp
next
  case (Cons c cs)
  have "sent (collectConnector lib client e c) =
      (case statusOf client e c of
        None \<Rightarrow> []
      | Some st \<Rightarrow> connectorMetric lib st # map (taskMetric lib st) (status_Tasks st))"
    by (simp add: collectConnector_def statusOf_def statusURL_def Let_def sent_append
        sent_map_EvSend split: option.splits)
  with Cons show ?case
    by (auto simp: sent_append connectorMetric_valid taskMetric_valid split: option.splits)
qed

subsection \<open>The events of a cycle\<close>

lemma collectConnector_URI:
  "URI e' = URI e \<Longrightarrow> collectConnector f client e' c = collectConnector f client e c"
  by (simp add: collectConnector_def)

lemma collectLoop_URI:
  "URI e' = URI e \<Longrightarrow> collectLoop f client e' cs = collectLoop f client e cs"
proof (induction cs)
  case Nil
  show ?case by simp
next
  case (Cons c cs)
  then show ?case
    using collectConnector_URI [of e' e f client c] by simp
qed

lemma collectLoop_gauges:
  "collectLoop f client (e\<lparr>up := g\<rparr>) cs = collectLoop f client e cs"
  "collectLoop f client (e\<lparr>connectorsCount := g\<rparr>) cs = collectLoop f client e cs"
  using collectLoop_URI [of "e\<lparr>up := g\<rparr>" e f client cs]
    collectLoop_URI [of "e\<lparr>connectorsCount := g\<rparr>" e f client cs]
  by simp_all

lemma Collect_get_error:
  "client (listingURL e) = None \<Longrightarrow>
   snd (Collect_metrics f client e) =
     [EvGet (listingURL e) False, EvLog ''Can't scrape kafka connect: %v'', EvSend (upSample e 0)]"
  by (simp add: Collect_metrics_def listingURL_def upSample_def gaugeMetric_def Set_gauge_def Let_def)

lemma Collect_read_error:
  "client (listingURL e) = Some r \<Longrightarrow> readAll r = None \<Longrightarrow>
   snd (Collect_metrics f client e) =
     [EvGet (listingURL e) True, EvReadAll (listingURL e) False,
      EvLog ''Can't scrape kafka connect: %v'', EvSend (upSample e 0)]
     @ deferredClose (e\<lparr>up := Set_gauge (up e) 0\<rparr>) (listingURL e) r"
  by (simp add: Collect_metrics_def listingURL_def upSample_def gaugeMetric_def Set_gauge_def Let_def)

lemma Collect_decode_error:
  "client (listingURL e) = Some r \<Longrightarrow> readAll r = Some p \<Longrightarrow> Unmarshal_connectors p = None \<Longrightarrow>
   snd (Collect_metrics f client e) =
     [EvGet (listingURL e) True, EvReadAll (listingURL e) True,
      EvLog ''Can't scrape kafka connect: %v'', EvSend (upSample e 0)]
     @ deferredClose (e\<lparr>up := Set_gauge (up e) 0\<rparr>) (listingURL e) r"
  by (simp add: Collect_metrics_def listingURL_def upSample_def gaugeMetric_def Set_gauge_def Let_def)

lemma Collect_listed:
  "client (listingURL e) = Some r \<Longrightarrow> readAll r = Some p \<Longrightarrow> Unmarshal_connectors p = Some cs \<Longrightarrow>
   snd (Collect_metrics f client e) =
     [EvGet (listingURL e) True, EvReadAll (listingURL e) True,
      EvSend (upSample e 1), EvSend (countSample e (int (length cs)))]
     @ collectLoop f client e cs
     @ deferredClose (e\<lparr>up := Set_gauge (up e) 1\<rparr>) (listingURL e) r"
  by (simp add: Collect_metrics_def listingURL_def upSample_def countSample_def gaugeMetric_def
      Let_def Set_gauge_def deferredClose_def collectLoop_gauges)

lemma Collect_sent:
  "sent (snd (Collect_metrics f client e)) =
     (case client (listingURL e) of
        None \<Rightarrow> [upSample e 0]
      | Some r \<Rightarrow>
          (case listing client e of
             None \<Rightarrow> upSample e 0 # (if closeErr r then [upSample e 0] else [])
           | Some cs \<Rightarrow>
               [upSample e 1, countSample e (int (length cs))]
               @ statusSamples f client e cs
               @ (if closeErr r then [upSample e 1] else [])))"
proof (cases "client (listingURL e)")
  case None
  then show ?thesis by (simp add: Collect_get_error)
next
  case (Some r)
  show ?thesis
  proof (cases "readAll r")
    case None
    with Some show ?thesis
      by (simp add: Collect_read_error listing_def sent_append sent_deferredClose sent_collectLoop upSample_def gaugeMetric_def Set_gauge_def)
  next
    case rd: (Some p)
    show ?thesis
    proof (cases "Unmarshal_connectors p")
      case None
      with Some rd show ?thesis
        by (simp add: Collect_decode_error listing_def sent_append sent_deferredClose sent_collectLoop upSample_def gaugeMetric_def Set_gauge_def)
    next
      case dec: (Some cs)
      with Some rd show ?thesis
        by (simp add: Collect_listed listing_def sent_append sent_deferredClose sent_collectLoop upSample_def gaugeMetric_def Set_gauge_def)
    qed
  qed
qed

subsection \<open>The listing step\<close>

lemmas example_defs = exampleExporter_def NewExporter_def listingURL_def statusURL_def
  exampleUpstream_def brokenListing_def lostConnector_def notFound_def wrongKind_def
  statusBody_def

lemmas sample_eval = connectorSample_def taskSample_def taskCode_def caseFoldsTo_literals
  MustNewConstMetric_def exampleLibrary_def decimal.simps digit_def

lemmas decode_defs = Unmarshal_connectors_def Unmarshal_status_def unmarshalConnectors_def
  unmarshalStatus_def unmarshalString_def unmarshalFloat64_def unmarshalTasks_def
  unmarshalTask_def unmarshalConnector_def statusMember_def taskMember_def connectorMember_def
  fieldMatches_def isLetter_def zeroStatus_def zeroTask_def zeroConnector_def exampleStatus_def
  notFoundBody_def upperNameBody_def longSBody_def

lemma listing_brokenListing: "listing brokenListing exampleExporter = None"
  by (simp add: listing_def example_defs decode_defs)

lemma listing_exampleUpstream:
  "listing (exampleUpstream b) exampleExporter = Some [''test-changesets'']"
  by (simp add: listing_def example_defs decode_defs)

lemma status_exampleUpstream:
  "statusOf (exampleUpstream b) exampleExporter ''test-changesets'' =
     Some \<lparr>status_Name = ''test-changesets'',
           status_Connector = \<lparr>connector_State = ''RUNNING'', connector_WorkerId = ''kafka-connect:8083''\<rparr>,
           status_Tasks = [\<lparr>task_State = ''running'', task_Id = 0, task_WorkerId = ''kafka-connect:8083''\<rparr>]\<rparr>"
  by (simp add: statusOf_def example_defs decode_defs lower_eval)

lemma listing_failure_one_sample:
  assumes "listingFails client e"
    and "case client (listingURL e) of None \<Rightarrow> True | Some r \<Rightarrow> \<not> closeErr r"
  shows "sent (snd (Collect_metrics f client e)) = [upSample e 0]"
  using assms
  by (auto simp: Collect_sent listingFails_def listing_def split: option.splits)

lemma length_sent_collectLoop:
  assumes "\<forall>c \<in> set cs. \<not> statusFetchFails client e c"
  shows "length (statusSamples f client e cs) = length cs + taskCount client e cs"
  using assms
proof (induction cs)
  case Nil
  show ?case by (simp add: taskCount_def statusSamples_def)
next
  case (Cons c cs)
  then show ?case
    by (auto simp: statusSamples_def taskCount_def statusFetchFails_def
        split: option.splits)
qed

lemma all_succeed_sample_count:
  assumes "listing client e = Some cs"
    and "client (listingURL e) = Some r" and "\<not> closeErr r"
    and "\<forall>c \<in> set cs. \<not> statusFetchFails client e c"
  shows "length (sent (snd (Collect_metrics f client e))) = 2 + length cs + taskCount client e cs"
    and "take 2 (sent (snd (Collect_metrics f client e))) =
           [upSample e 1, countSample e (int (length cs))]"
  using assms by (simp_all add: Collect_sent length_sent_collectLoop)

text \<open>
  C1. A cycle whose listing step fails is to send exactly one sample, \<^verbatim>\<open>up\<close> with value
  0. Here the listing answers with bytes that are no JSON text, so the step fails, and
  closing the body of the response fails as well: the deferred function of lines 82 to
  89 sends the gauge a second time, and the cycle emits two samples. Where the close
  succeeds the cycle emits the one sample (\<open>listing_failure_one_sample\<close>).
\<close>

theorem listing_fails_close_fails_two_samples:
  "listingFails brokenListing exampleExporter
   \<and> sent (snd (Collect_metrics exampleLibrary brokenListing exampleExporter)) =
       [upSample exampleExporter 0, upSample exampleExporter 0]"
proof -
  have "brokenListing (listingURL exampleExporter) = Some \<lparr>readAll = Some Malformed, closeErr = True\<rparr>"
    by (simp add: example_defs)
  then show ?thesis
    by (simp add: Collect_sent listing_brokenListing listingFails_def Unmarshal_connectors_def)
qed

text \<open>
  C3. A cycle whose listing decodes is to send \<^verbatim>\<open>up\<close> and the connector count once
  each, and \<open>2 + N + T\<close> samples when every status call succeeds. In the scenario of
  the specification (one connector, one task) with a listing body whose close fails,
  the deferred function sends \<^verbatim>\<open>up\<close> again at the end of the cycle: five samples instead
  of four, \<^verbatim>\<open>up\<close> twice. Where the close succeeds the count is \<open>2 + N + T\<close>
  (\<open>all_succeed_sample_count\<close>).
\<close>

theorem listing_close_fails_up_sent_twice:
  "listing (exampleUpstream True) exampleExporter = Some [''test-changesets'']
   \<and> \<not> statusFetchFails (exampleUpstream True) exampleExporter ''test-changesets''
   \<and> taskCount (exampleUpstream True) exampleExporter [''test-changesets''] = 1
   \<and> sent (snd (Collect_metrics exampleLibrary (exampleUpstream True) exampleExporter)) =
       [upSample exampleExporter 1,
        countSample exampleExporter 1,
        MustNewConstMetric isConnectorRunning 1
          [''test-changesets'', ''running'', ''kafka-connect:8083''],
        MustNewConstMetric areConnectorTasksRunning 1
          [''test-changesets'', ''running'', ''kafka-connect:8083'', ''0''],
        upSample exampleExporter 1]
   \<and> length (sent (snd (Collect_metrics exampleLibrary (exampleUpstream True) exampleExporter))) = 5"
proof -
  have "exampleUpstream True (listingURL exampleExporter) =
      Some \<lparr>readAll = Some (Document (JArray [JString ''test-changesets''])), closeErr = True\<rparr>"
    by (simp add: example_defs)
  then show ?thesis
    by (simp add: Collect_sent listing_exampleUpstream status_exampleUpstream
        statusFetchFails_def taskCount_def statusSamples_def sample_eval lower_eval)
qed

subsection \<open>A connector whose status fetch fails\<close>

lemma statusURL_neq_listingURL: "statusURL e c \<noteq> listingURL e"
  by (simp add: statusURL_def listingURL_def)

lemma statusOf_cong:
  assumes "\<forall>u. u \<noteq> listingURL e \<longrightarrow> client' u = client u"
  shows "statusOf client' e c = statusOf client e c"
  using assms statusURL_neq_listingURL [of e c] by (simp add: statusOf_def)

lemma statusSamples_cong:
  assumes "\<forall>u. u \<noteq> listingURL e \<longrightarrow> client' u = client u"
  shows "statusSamples f client' e cs = statusSamples f client e cs"
  by (simp add: statusSamples_def statusOf_cong [OF assms])

lemma statusSamples_append:
  "statusSamples f client e (xs @ ys) = statusSamples f client e xs @ statusSamples f client e ys"
  by (simp add: statusSamples_def)

lemma statusSamples_failed:
  "statusFetchFails client e c \<Longrightarrow>
   statusSamples f client e (c # ys) = statusSamples f client e ys"
  by (simp add: statusSamples_def statusFetchFails_def split: option.splits)

lemma sent_failed_connector:
  "statusFetchFails client e c \<Longrightarrow> sent (collectConnector f client e c) = []"
  by (simp add: sent_collectConnector statusFetchFails_def split: option.splits)

lemma listing_Some_response:
  "listing client e = Some cs \<Longrightarrow> \<exists>r. client (listingURL e) = Some r"
  by (simp add: listing_def split: option.splits)

text \<open>
  C2. The listing succeeds with the names \<open>xs @ c # ys\<close> and the status fetch of \<open>c\<close>
  fails (request error, unreadable body or bytes that do not decode). Then the first two
  samples of the cycle are \<^verbatim>\<open>up\<close> with value 1 and the connector count with value the
  length of the listing; the round of \<open>c\<close> sends nothing; after the two gauges come the
  samples of the connectors \<open>xs @ ys\<close>; and everything after the two gauges is what a
  cycle sends whose listing is \<open>xs @ ys\<close> and whose upstream is otherwise the same: the
  failure neither removes nor adds a sample of the gauges or of another connector.
\<close>

theorem failing_connector_is_skipped:
  assumes "listing client e = Some (xs @ c # ys)"
    and "statusFetchFails client e c"
    and "listing client' e = Some (xs @ ys)"
    and "\<forall>u. u \<noteq> listingURL e \<longrightarrow> client' u = client u"
    and "map_option closeErr (client' (listingURL e)) = map_option closeErr (client (listingURL e))"
  shows "take 2 (sent (snd (Collect_metrics lib client e))) =
           [\<lparr>desc = gaugeDesc (up e), val = 1, labelValues = []\<rparr>,
            \<lparr>desc = gaugeDesc (connectorsCount e), val = int (length (xs @ c # ys)),
             labelValues = []\<rparr>]
         \<and> sent (collectConnector lib client e c) = []
         \<and> (\<exists>rest. drop 2 (sent (snd (Collect_metrics lib client e))) =
                      statusSamples lib client e (xs @ ys) @ rest)
         \<and> drop 2 (sent (snd (Collect_metrics lib client e))) =
             drop 2 (sent (snd (Collect_metrics lib client' e)))"
proof -
  obtain r where r: "client (listingURL e) = Some r"
    using assms(1) listing_Some_response by blast
  obtain r' where r': "client' (listingURL e) = Some r'"
    using assms(3) listing_Some_response by blast
  have cl: "closeErr r' = closeErr r" using assms(5) r r' by simp
  have skip: "sent (collectConnector lib client e c) = []"
    using assms(2) by (rule sent_failed_connector)
  have loop: "statusSamples lib client e (xs @ c # ys) = statusSamples lib client e (xs @ ys)"
    using assms(2) by (simp add: statusSamples_append statusSamples_failed)
  have loop': "statusSamples lib client' e (xs @ ys) = statusSamples lib client e (xs @ ys)"
    using assms(4) by (rule statusSamples_cong)
  have a: "sent (snd (Collect_metrics lib client e)) =
      [upSample e 1, countSample e (int (length (xs @ c # ys)))]
      @ statusSamples lib client e (xs @ ys) @ (if closeErr r then [upSample e 1] else [])"
    using assms(1) r loop by (simp add: Collect_sent)
  have b: "sent (snd (Collect_metrics lib client' e)) =
      [upSample e 1, countSample e (int (length (xs @ ys)))]
      @ statusSamples lib client e (xs @ ys) @ (if closeErr r then [upSample e 1] else [])"
    using assms(3) r' loop' cl by (simp add: Collect_sent)
  have "\<exists>rest. drop 2 (sent (snd (Collect_metrics lib client e))) =
      statusSamples lib client e (xs @ ys) @ rest"
    using a by simp
  then show ?thesis using a b skip by (simp add: upSample_def countSample_def)
qed

theorem failing_connector_is_skipped_witness:
  "take 2 (sent (snd (Collect_metrics exampleLibrary lostConnector exampleExporter))) =
     [\<lparr>desc = \<lparr>fqName = ''kafka_connect_up'',
               helpText = ''was the last scrape of kafka connect successful?'',
               variableLabels = []\<rparr>,
       val = 1, labelValues = []\<rparr>,
      \<lparr>desc = \<lparr>fqName = ''kafka_connect_connectors_count'',
               helpText = ''number of deployed connectors'', variableLabels = []\<rparr>,
       val = 2, labelValues = []\<rparr>]
   \<and> sent (collectConnector exampleLibrary lostConnector exampleExporter ''lost'') = []
   \<and> drop 2 (sent (snd (Collect_metrics exampleLibrary lostConnector exampleExporter))) =
       [\<lparr>desc = isConnectorRunning, val = 1,
         labelValues = [''test-changesets'', ''running'', ''kafka-connect:8083'']\<rparr>,
        \<lparr>desc = areConnectorTasksRunning, val = 1,
         labelValues = [''test-changesets'', ''running'', ''kafka-connect:8083'', ''0'']\<rparr>]
   \<and> drop 2 (sent (snd (Collect_metrics exampleLibrary lostConnector exampleExporter))) =
       drop 2 (sent (snd (Collect_metrics exampleLibrary (exampleUpstream False) exampleExporter)))"
proof -
  have 1: "listing lostConnector exampleExporter = Some ([] @ ''lost'' # [''test-changesets''])"
    by (simp add: listing_def example_defs decode_defs)
  have 2: "statusFetchFails lostConnector exampleExporter ''lost''"
    by (simp add: statusFetchFails_def statusOf_def example_defs)
  have 3: "listing (exampleUpstream False) exampleExporter = Some ([] @ [''test-changesets''])"
    by (simp add: listing_exampleUpstream)
  have 4: "\<forall>u. u \<noteq> listingURL exampleExporter \<longrightarrow> exampleUpstream False u = lostConnector u"
    by (simp add: example_defs)
  have 5: "map_option closeErr (exampleUpstream False (listingURL exampleExporter)) =
      map_option closeErr (lostConnector (listingURL exampleExporter))"
    by (simp add: example_defs)
  have l: "lostConnector (listingURL exampleExporter) =
      Some \<lparr>readAll = Some (Document (JArray [JString ''lost'', JString ''test-changesets''])),
            closeErr = False\<rparr>"
    by (simp add: example_defs)
  have s: "statusOf lostConnector exampleExporter ''test-changesets'' =
      statusOf (exampleUpstream False) exampleExporter ''test-changesets''"
    by (simp add: statusOf_def example_defs)
  have d: "drop 2 (sent (snd (Collect_metrics exampleLibrary lostConnector exampleExporter))) =
       [\<lparr>desc = isConnectorRunning, val = 1,
         labelValues = [''test-changesets'', ''running'', ''kafka-connect:8083'']\<rparr>,
        \<lparr>desc = areConnectorTasksRunning, val = 1,
         labelValues = [''test-changesets'', ''running'', ''kafka-connect:8083'', ''0'']\<rparr>]"
    using 2 l 1 s
    by (simp add: Collect_sent statusSamples_def statusFetchFails_def status_exampleUpstream
        sample_eval lower_eval split: option.splits)
  show ?thesis
    using failing_connector_is_skipped [OF 1 2 3 4 5, of exampleLibrary] d
    by (simp add: exampleExporter_def NewExporter_def NewGauge_def NewDesc_def BuildFQName_def
        nameSpace_def)
qed

subsection \<open>The sample of a connector\<close>

lemma desc_upSample: "desc (upSample e v) = gaugeDesc (up e)"
  by (simp add: upSample_def)

lemma desc_countSample: "desc (countSample e v) = gaugeDesc (connectorsCount e)"
  by (simp add: countSample_def)

lemma filter_sent_cycle:
  assumes "gaugeDesc (up e) \<noteq> d" and "gaugeDesc (connectorsCount e) \<noteq> d"
  shows "filter (\<lambda>m. desc m = d) (sent (snd (Collect_metrics lib client e))) =
           (case listing client e of
              None \<Rightarrow> []
            | Some cs \<Rightarrow> filter (\<lambda>m. desc m = d) (statusSamples lib client e cs))"
proof (cases "client (listingURL e)")
  case None
  then show ?thesis
    using assms by (simp add: Collect_sent listing_def desc_upSample)
next
  case (Some r)
  then show ?thesis
    using assms
    by (cases "listing client e") (simp_all add: Collect_sent desc_upSample desc_countSample)
qed

lemma not_caseFoldsTo_empty: "\<not> caseFoldsTo lib [] ''running''"
  by (simp add: caseFoldsTo_def isASCII_def foldsTo_def)

text \<open>
  C5. The samples of a cycle with the descriptor \<open>isConnectorRunning\<close> are, in the order
  of the listing, one for every connector whose status decodes, and none when the listing
  fails; the exporter's gauges are assumed not to use that descriptor, as is the case
  for the exporter \<open>NewExporter\<close> builds. The sample of a status has value 1 if the state
  of the connector folds to \<^verbatim>\<open>running\<close> and 0 otherwise (also for the empty string),
  and its labels are the name of the status, the lower-cased state and the worker id.
  For an ASCII state, folding is the letter-wise notion of the specification and the
  label is the string with the same letters and no upper-case one; for another state
  both are what the library's Unicode lower-casing gives.
\<close>

theorem connector_running_sample:
  "(gaugeDesc (up e) \<noteq> isConnectorRunning \<and> gaugeDesc (connectorsCount e) \<noteq> isConnectorRunning
      \<longrightarrow> filter (\<lambda>m. desc m = isConnectorRunning) (sent (snd (Collect_metrics lib client e))) =
            (case listing client e of
               None \<Rightarrow> []
             | Some cs \<Rightarrow> connectorSamples lib client e cs))
   \<and> (statusOf client e c = Some st
      \<longrightarrow> filter (\<lambda>m. desc m = isConnectorRunning) (sent (collectConnector lib client e c)) =
            [\<lparr>desc = isConnectorRunning,
              val = (if caseFoldsTo lib (connector_State (status_Connector st)) ''running''
                     then 1 else 0),
              labelValues =
                [status_Name st, ToLower lib (connector_State (status_Connector st)),
                 connector_WorkerId (status_Connector st)]\<rparr>])
   \<and> (isASCII s \<longrightarrow> caseFoldsTo lib s ''running'' = foldsTo s ''running''
                    \<and> foldsTo s (ToLower lib s) \<and> noUpper (ToLower lib s))
   \<and> \<not> caseFoldsTo lib [] ''running''"
proof (intro conjI impI)
  assume "gaugeDesc (up e) \<noteq> isConnectorRunning \<and> gaugeDesc (connectorsCount e) \<noteq> isConnectorRunning"
  then show "filter (\<lambda>m. desc m = isConnectorRunning) (sent (snd (Collect_metrics lib client e))) =
            (case listing client e of
               None \<Rightarrow> []
             | Some cs \<Rightarrow> connectorSamples lib client e cs)"
    by (simp add: filter_sent_cycle filter_connector_statusSamples split: option.splits)
next
  assume st: "statusOf client e c = Some st"
  have "filter (\<lambda>m. desc m = isConnectorRunning) (map (taskSample lib st) ts) = []" for ts
    using descs_distinct by (induction ts) (auto simp: desc_taskSample)
  then show "filter (\<lambda>m. desc m = isConnectorRunning) (sent (collectConnector lib client e c)) =
            [\<lparr>desc = isConnectorRunning,
              val = (if caseFoldsTo lib (connector_State (status_Connector st)) ''running''
                     then 1 else 0),
              labelValues =
                [status_Name st, ToLower lib (connector_State (status_Connector st)),
                 connector_WorkerId (status_Connector st)]\<rparr>]"
    using st by (simp add: sent_collectConnector connectorSample_def)
next
  assume "isASCII s"
  then show "caseFoldsTo lib s ''running'' = foldsTo s ''running''"
    by (simp add: caseFoldsTo_def)
next
  assume "isASCII s"
  then show "foldsTo s (ToLower lib s)" "noUpper (ToLower lib s)"
    using ToLower_folds by blast+
next
  show "\<not> caseFoldsTo lib [] ''running''" by (rule not_caseFoldsTo_empty)
qed

lemma exampleExporter_descs:
  "gaugeDesc (up exampleExporter) \<noteq> areConnectorTasksRunning"
  "gaugeDesc (connectorsCount exampleExporter) \<noteq> areConnectorTasksRunning"
  "gaugeDesc (up exampleExporter) \<noteq> isConnectorRunning"
  "gaugeDesc (connectorsCount exampleExporter) \<noteq> isConnectorRunning"
  by (simp_all add: exampleExporter_def NewExporter_def NewGauge_def NewDesc_def
      areConnectorTasksRunning_def isConnectorRunning_def)

lemma status_notFound: "statusOf notFound exampleExporter ''gone'' = Some zeroStatus"
  by (simp add: statusOf_def example_defs decode_defs lower_eval)

lemma listing_notFound: "listing notFound exampleExporter = Some [''gone'']"
  by (simp add: listing_def example_defs decode_defs)

theorem connector_running_sample_witness:
  "filter (\<lambda>m. desc m = isConnectorRunning)
      (sent (snd (Collect_metrics exampleLibrary (exampleUpstream False) exampleExporter))) =
     [\<lparr>desc = isConnectorRunning, val = 1,
       labelValues = [''test-changesets'', ''running'', ''kafka-connect:8083'']\<rparr>]
   \<and> filter (\<lambda>m. desc m = isConnectorRunning)
        (sent (collectConnector exampleLibrary notFound exampleExporter ''gone'')) =
       [\<lparr>desc = isConnectorRunning, val = 0, labelValues = [[], [], []]\<rparr>]
   \<and> foldsTo ''RUNNING'' (ToLower exampleLibrary ''RUNNING'')
   \<and> ToLower exampleLibrary ''RUNNING'' = ''running''"
proof -
  note t1 = connector_running_sample [where lib = exampleLibrary and e = exampleExporter
      and client = "exampleUpstream False" and c = "''test-changesets''" and s = "''RUNNING''"]
  note t2 = connector_running_sample [where lib = exampleLibrary and e = exampleExporter
      and client = notFound and c = "''gone''" and st = zeroStatus and s = "''RUNNING''"]
  have a: "isASCII ''RUNNING''" by (simp add: isASCII_def)
  have "filter (\<lambda>m. desc m = isConnectorRunning)
      (sent (snd (Collect_metrics exampleLibrary (exampleUpstream False) exampleExporter))) =
      connectorSamples exampleLibrary (exampleUpstream False) exampleExporter [''test-changesets'']"
    using t1 exampleExporter_descs by (simp add: listing_exampleUpstream)
  moreover have "filter (\<lambda>m. desc m = isConnectorRunning)
        (sent (collectConnector exampleLibrary notFound exampleExporter ''gone'')) =
       [\<lparr>desc = isConnectorRunning, val = 0, labelValues = [[], [], []]\<rparr>]"
    using t2 status_notFound
    by (simp add: zeroStatus_def zeroConnector_def caseFoldsTo_literals lower_eval)
  moreover have "foldsTo ''RUNNING'' (ToLower exampleLibrary ''RUNNING'')"
    using t1 a by blast
  ultimately show ?thesis
    by (simp add: connectorSamples_def status_exampleUpstream sample_eval lower_eval)
qed

subsection \<open>The code of a task state\<close>

lemma taskSample_explicit:
  "taskSample lib st =
     (\<lambda>t. \<lparr>desc = areConnectorTasksRunning, val = state lib (task_State t),
           labelValues =
             [status_Name st, ToLower lib (task_State t), task_WorkerId t,
              sprintInt lib (task_Id t)]\<rparr>)"
  by (intro ext) (simp add: taskSample_def state_taskCode)

text \<open>
  C4. The code of a task state is defined for every string: 1 for a string that folds
  to \<^verbatim>\<open>running\<close>, 2 for \<^verbatim>\<open>unassigned\<close>, 3 for \<^verbatim>\<open>paused\<close> and 0 for every other string,
  among them \<^verbatim>\<open>failed\<close> and the empty string. For an ASCII string, folding is the
  letter-wise notion of the specification; for another string it is what the library's
  Unicode lower-casing gives. The task samples of a cycle are, in the order of the
  listing and of the payloads, one for every task of every status that decodes, each
  with the code of the state of its task as value; here the exporter's gauges are
  assumed not to use the descriptor of the task samples, as is the case for the
  exporter \<open>NewExporter\<close> builds.
\<close>

theorem task_state_code:
  "state lib s =
     (if caseFoldsTo lib s ''running'' then 1
      else if caseFoldsTo lib s ''unassigned'' then 2
      else if caseFoldsTo lib s ''paused'' then 3
      else 0)
   \<and> (isASCII s \<longrightarrow> caseFoldsTo lib s t = foldsTo s t)
   \<and> state lib ''failed'' = 0 \<and> state lib [] = 0
   \<and> (gaugeDesc (up e) \<noteq> areConnectorTasksRunning
        \<and> gaugeDesc (connectorsCount e) \<noteq> areConnectorTasksRunning
      \<longrightarrow> filter (\<lambda>m. desc m = areConnectorTasksRunning)
              (sent (snd (Collect_metrics lib client e))) =
            (case listing client e of
               None \<Rightarrow> []
             | Some cs \<Rightarrow>
                 concat (map (\<lambda>c. case statusOf client e c of
                                     None \<Rightarrow> []
                                   | Some st \<Rightarrow>
                                       map (\<lambda>t. \<lparr>desc = areConnectorTasksRunning,
                                                  val = state lib (task_State t),
                                                  labelValues =
                                                    [status_Name st, ToLower lib (task_State t),
                                                     task_WorkerId t, sprintInt lib (task_Id t)]\<rparr>)
                                         (status_Tasks st)) cs)))"
proof (intro conjI impI)
  show "state lib s =
     (if caseFoldsTo lib s ''running'' then 1
      else if caseFoldsTo lib s ''unassigned'' then 2
      else if caseFoldsTo lib s ''paused'' then 3
      else 0)"
    by (simp add: state_taskCode taskCode_def)
  show "state lib ''failed'' = 0" by (simp add: state_def lower_eval)
  show "state lib [] = 0" by (simp add: state_def lower_eval)
next
  assume "isASCII s"
  then show "caseFoldsTo lib s t = foldsTo s t" by (simp add: caseFoldsTo_def)
next
  assume "gaugeDesc (up e) \<noteq> areConnectorTasksRunning
        \<and> gaugeDesc (connectorsCount e) \<noteq> areConnectorTasksRunning"
  then have "filter (\<lambda>m. desc m = areConnectorTasksRunning)
              (sent (snd (Collect_metrics lib client e))) =
            (case listing client e of None \<Rightarrow> [] | Some cs \<Rightarrow> taskSamples lib client e cs)"
    by (simp add: filter_sent_cycle filter_task_statusSamples split: option.splits)
  then show "filter (\<lambda>m. desc m = areConnectorTasksRunning)
              (sent (snd (Collect_metrics lib client e))) =
            (case listing client e of
               None \<Rightarrow> []
             | Some cs \<Rightarrow>
                 concat (map (\<lambda>c. case statusOf client e c of
                                     None \<Rightarrow> []
                                   | Some st \<Rightarrow>
                                       map (\<lambda>t. \<lparr>desc = areConnectorTasksRunning,
                                                  val = state lib (task_State t),
                                                  labelValues =
                                                    [status_Name st, ToLower lib (task_State t),
                                                     task_WorkerId t, sprintInt lib (task_Id t)]\<rparr>)
                                         (status_Tasks st)) cs))"
    by (simp add: taskSamples_def taskSample_explicit split: option.splits cong: option.case_cong)
qed

theorem task_state_code_witness:
  "state exampleLibrary ''Running'' = 1 \<and> state exampleLibrary ''RUNNING'' = 1
   \<and> state exampleLibrary ''running'' = 1 \<and> state exampleLibrary ''Unassigned'' = 2
   \<and> state exampleLibrary ''PAUSED'' = 3 \<and> state exampleLibrary ''foo'' = 0
   \<and> filter (\<lambda>m. desc m = areConnectorTasksRunning)
        (sent (snd (Collect_metrics exampleLibrary (exampleUpstream False) exampleExporter))) =
       [\<lparr>desc = areConnectorTasksRunning, val = 1,
         labelValues = [''test-changesets'', ''running'', ''kafka-connect:8083'', ''0'']\<rparr>]"
proof -
  note t = task_state_code [where lib = exampleLibrary and e = exampleExporter
      and client = "exampleUpstream False"]
  have ascii: "isASCII ''Running''" "isASCII ''RUNNING''" "isASCII ''running''"
    "isASCII ''Unassigned''" "isASCII ''PAUSED''" "isASCII ''foo''"
    by (simp_all add: isASCII_def)
  have folds: "foldsTo ''Running'' ''running''" "foldsTo ''RUNNING'' ''running''"
    "foldsTo ''running'' ''running''" "foldsTo ''Unassigned'' ''unassigned''"
    "\<not> foldsTo ''Unassigned'' ''running''"
    "foldsTo ''PAUSED'' ''paused''" "\<not> foldsTo ''PAUSED'' ''running''"
    "\<not> foldsTo ''PAUSED'' ''unassigned''"
    "\<not> foldsTo ''foo'' ''running''" "\<not> foldsTo ''foo'' ''unassigned''"
    "\<not> foldsTo ''foo'' ''paused''"
    by (simp_all add: foldsTo_def sameLetter_def isUpper_def)
  have codes: "state exampleLibrary ''Running'' = 1" "state exampleLibrary ''RUNNING'' = 1"
    "state exampleLibrary ''running'' = 1" "state exampleLibrary ''Unassigned'' = 2"
    "state exampleLibrary ''PAUSED'' = 3" "state exampleLibrary ''foo'' = 0"
    using t [where s = "''Running''"] t [where s = "''RUNNING''"] t [where s = "''running''"]
      t [where s = "''Unassigned''"] t [where s = "''PAUSED''"] t [where s = "''foo''"]
      ascii folds
    by simp_all
  have "filter (\<lambda>m. desc m = areConnectorTasksRunning)
        (sent (snd (Collect_metrics exampleLibrary (exampleUpstream False) exampleExporter))) =
       [\<lparr>desc = areConnectorTasksRunning, val = state exampleLibrary ''running'',
         labelValues = [''test-changesets'', ''running'', ''kafka-connect:8083'', ''0'']\<rparr>]"
    using t [where s = "[]"] exampleExporter_descs
    by (simp add: listing_exampleUpstream status_exampleUpstream lower_eval exampleLibrary_def
        decimal.simps digit_def)
  with codes show ?thesis by simp
qed

subsection \<open>Cycles, startup and descriptors\<close>

lemma upSample_cong:
  "gaugeDesc (up e') = gaugeDesc (up e) \<Longrightarrow> upSample e' v = upSample e v"
  by (simp add: upSample_def)

lemma countSample_cong:
  "gaugeDesc (connectorsCount e') = gaugeDesc (connectorsCount e) \<Longrightarrow>
   countSample e' v = countSample e v"
  by (simp add: countSample_def)

lemma deferredClose_upSample:
  "deferredClose (e\<lparr>up := Set_gauge (up e) v\<rparr>) u r =
     (if closeErr r
      then [EvClose u False, EvLog ''Can't close connection to kafka connect: %v'',
            EvSend (upSample e v)]
      else [EvClose u True])"
  by (simp add: deferredClose_def upSample_def gaugeMetric_def Set_gauge_def)

lemma Collect_events_cong:
  assumes "URI e' = URI e"
    and "gaugeDesc (up e') = gaugeDesc (up e)"
    and "gaugeDesc (connectorsCount e') = gaugeDesc (connectorsCount e)"
  shows "snd (Collect_metrics f client e') = snd (Collect_metrics f client e)"
proof -
  have u: "listingURL e' = listingURL e" using assms(1) by (simp add: listingURL_def)
  have up: "upSample e' = upSample e"
    using assms(2) by (intro ext) (rule upSample_cong)
  have cnt: "countSample e' = countSample e"
    using assms(3) by (intro ext) (rule countSample_cong)
  have loop: "collectLoop f client e' = collectLoop f client e"
    using assms(1) by (intro ext) (rule collectLoop_URI)
  show ?thesis
  proof (cases "client (listingURL e)")
    case None
    then show ?thesis using u up by (simp add: Collect_get_error)
  next
    case (Some r)
    show ?thesis
    proof (cases "readAll r")
      case None
      with Some show ?thesis
        using u up by (simp add: Collect_read_error deferredClose_upSample)
    next
      case rd: (Some p)
      show ?thesis
      proof (cases "Unmarshal_connectors p")
        case None
        with Some rd show ?thesis
          using u up by (simp add: Collect_decode_error deferredClose_upSample)
      next
        case (Some cs)
        with \<open>client (listingURL e) = Some r\<close> rd show ?thesis
          using u up cnt loop by (simp add: Collect_listed deferredClose_upSample)
      qed
    qed
  qed
qed

lemma Collect_keeps:
  "URI (fst (Collect_metrics f client e)) = URI e"
  "gaugeDesc (up (fst (Collect_metrics f client e))) = gaugeDesc (up e)"
  "gaugeDesc (connectorsCount (fst (Collect_metrics f client e))) = gaugeDesc (connectorsCount e)"
  by (simp_all add: Collect_metrics_def Let_def Set_gauge_def split: option.splits)

text \<open>
  C8. A second cycle, run from the exporter as the first cycle left it and against the
  same upstream, does the same calls and sends the same samples, with the same
  descriptors, label values and values: nothing a cycle leaves in the gauges reaches
  the next one.
\<close>

theorem cycles_idempotent:
  "snd (Collect_metrics f client (fst (Collect_metrics f client e))) =
     snd (Collect_metrics f client e)
   \<and> sent (snd (Collect_metrics f client (fst (Collect_metrics f client e)))) =
       sent (snd (Collect_metrics f client e))
   \<and> set (sent (snd (Collect_metrics f client (fst (Collect_metrics f client e))))) =
       set (sent (snd (Collect_metrics f client e)))"
  using Collect_events_cong [where e' = "fst (Collect_metrics f client e)" and e = e
      and f = f and client = client]
  by (simp add: Collect_keeps)

lemma index_supportedSchema:
  "index supportedSchema s \<longleftrightarrow> s = ''http'' \<or> s = ''https''"
  by (simp add: index_def supportedSchema_def)

lemma Collect_first_event:
  "\<exists>ok es. snd (Collect_metrics f client e) = EvGet (listingURL e) ok # es"
  by (cases "client (listingURL e)")
    (auto simp: Collect_metrics_def Let_def listingURL_def split: option.splits)

lemma supported_scheme_serves:
  assumes "\<not> showVersion fl" and "Parse (scrapeURI fl) = Some parseURI"
    and "Scheme parseURI = ''http'' \<or> Scheme parseURI = ''https''"
  shows "main Parse fl =
           ListenAndServe (listenAddress fl) (metricsPath fl) (NewExporter (scrapeURI fl))"
  using assms by (auto simp: main_def index_supportedSchema)

text \<open>
  C9. When the scrape URI does not parse, or parses to a scheme other than \<^verbatim>\<open>http\<close> and
  \<^verbatim>\<open>https\<close>, \<^verbatim>\<open>main\<close> exits with a nonzero status instead of starting to serve. A
  cycle does not look at the scheme: whatever the URI of the exporter, its first step is
  the request of the listing.
\<close>

theorem unsupported_scheme_exits:
  assumes "case Parse (scrapeURI fl) of
             None \<Rightarrow> True
           | Some parseURI \<Rightarrow> Scheme parseURI \<noteq> ''http'' \<and> Scheme parseURI \<noteq> ''https''"
  shows "(\<exists>n. main Parse fl = Exit n \<and> n \<noteq> 0)
         \<and> (\<exists>ok es. snd (Collect_metrics f client e) = EvGet (listingURL e) ok # es)"
proof
  show "\<exists>n. main Parse fl = Exit n \<and> n \<noteq> 0"
    using assms by (auto simp: main_def index_supportedSchema split: option.splits)
  show "\<exists>ok es. snd (Collect_metrics f client e) = EvGet (listingURL e) ok # es"
    by (rule Collect_first_event)
qed

theorem unsupported_scheme_exits_witness:
  "main (\<lambda>s. Some \<lparr>Scheme = ''ftp''\<rparr>) exampleFlags = Exit 1
   \<and> (\<exists>ok es. snd (Collect_metrics exampleLibrary brokenListing (NewExporter (scrapeURI exampleFlags))) =
         EvGet ''ftp://kafka-connect:8083/connectors'' ok # es)"
proof -
  have h: "case (\<lambda>s. Some \<lparr>Scheme = ''ftp''\<rparr>) (scrapeURI exampleFlags) of
             None \<Rightarrow> True
           | Some parseURI \<Rightarrow> Scheme parseURI \<noteq> ''http'' \<and> Scheme parseURI \<noteq> ''https''"
    by simp
  have m: "main (\<lambda>s. Some \<lparr>Scheme = ''ftp''\<rparr>) exampleFlags = Exit 1"
    by (simp add: main_def exampleFlags_def index_supportedSchema)
  show ?thesis
    using unsupported_scheme_exits [OF h, where f = exampleLibrary and client = brokenListing
        and e = "NewExporter (scrapeURI exampleFlags)"] m
    by (simp add: listingURL_def NewExporter_def exampleFlags_def)
qed

text \<open>
  C10. \<^verbatim>\<open>Describe\<close> sends the descriptor of the \<^verbatim>\<open>up\<close> gauge and nothing else, before
  and after any cycle; for the exporter \<open>NewExporter\<close> builds, neither the descriptor of
  the connector count nor those of the two per-connector metrics are among what it
  sends.
\<close>

theorem describe_only_up:
  "Describe e = [gaugeDesc (up e)]
   \<and> Describe (fst (Collect_metrics f client e)) = Describe e
   \<and> fqName (gaugeDesc (up (NewExporter uri))) = ''kafka_connect_up''
   \<and> gaugeDesc (connectorsCount (NewExporter uri)) \<notin> set (Describe (NewExporter uri))
   \<and> isConnectorRunning \<notin> set (Describe (NewExporter uri))
   \<and> areConnectorTasksRunning \<notin> set (Describe (NewExporter uri))"
  by (simp add: Describe_def Collect_keeps NewExporter_def NewGauge_def NewDesc_def
      BuildFQName_def nameSpace_def isConnectorRunning_def areConnectorTasksRunning_def)

subsection \<open>Response bodies\<close>

lemma closes_append: "closes u (xs @ ys) = closes u xs + closes u ys"
  by (induction u xs rule: closes.induct) simp_all

lemma closes_sends: "closes u (map (\<lambda>t. EvSend (g t)) ts) = 0"
  by (induction ts) simp_all

lemma released_sends: "released b (map (\<lambda>t. EvSend (g t)) ts @ es) = released b es"
  by (induction ts) simp_all

lemma closes_collectConnector:
  "closes v (collectConnector f client e c) =
     (if v = statusURL e c \<and> statusOf client e c \<noteq> None then 1 else 0)"
  by (simp add: collectConnector_def statusOf_def statusURL_def Let_def closes_append
      closes_sends split: option.splits)

lemma closes_collectLoop_listing: "closes (listingURL e) (collectLoop f client e cs) = 0"
proof -
  have ne: "\<And>c. listingURL e \<noteq> statusURL e c"
    using statusURL_neq_listingURL [of e] by metis
  show ?thesis
    by (induction cs) (simp_all add: closes_append closes_collectConnector ne)
qed

lemma closes_deferredClose: "closes u (deferredClose e' u r) = 1"
  by (simp add: deferredClose_def)

lemma Collect_ends_with_close:
  assumes "client (listingURL e) = Some r"
  shows "\<exists>pre e'. snd (Collect_metrics f client e) = pre @ deferredClose e' (listingURL e) r
           \<and> closes (listingURL e) pre = 0"
proof (cases "readAll r")
  case None
  show ?thesis
    by (rule exI [of _ "[EvGet (listingURL e) True, EvReadAll (listingURL e) False,
          EvLog ''Can't scrape kafka connect: %v'', EvSend (upSample e 0)]"],
        rule exI [of _ "e\<lparr>up := Set_gauge (up e) 0\<rparr>"])
      (simp add: Collect_read_error [of client e r f] assms None)
next
  case rd: (Some p)
  show ?thesis
  proof (cases "Unmarshal_connectors p")
    case None
    show ?thesis
      by (rule exI [of _ "[EvGet (listingURL e) True, EvReadAll (listingURL e) True,
            EvLog ''Can't scrape kafka connect: %v'', EvSend (upSample e 0)]"],
          rule exI [of _ "e\<lparr>up := Set_gauge (up e) 0\<rparr>"])
        (simp add: Collect_decode_error [of client e r p f] assms rd None)
  next
    case (Some cs)
    show ?thesis
      by (rule exI [of _ "[EvGet (listingURL e) True, EvReadAll (listingURL e) True,
            EvSend (upSample e 1), EvSend (countSample e (int (length cs)))]
            @ collectLoop f client e cs"],
          rule exI [of _ "e\<lparr>up := Set_gauge (up e) 1\<rparr>"])
        (simp add: Collect_listed [of client e r p cs f] assms rd Some closes_append
          closes_collectLoop_listing)
  qed
qed

lemma calls_append: "calls (xs @ ys) = calls xs @ calls ys"
  by (induction xs rule: calls.induct) simp_all

lemma calls_sends: "calls (map (\<lambda>t. EvSend (g t)) ts) = []"
  by (induction ts) simp_all

lemma calls_deferredClose: "calls (deferredClose e' u r) = [EvClose u (\<not> closeErr r)]"
  by (simp add: deferredClose_def)

lemma calls_round:
  assumes "client (statusURL e c) = Some r'" and "statusOf client e c = Some st"
  shows "calls (collectConnector lib client e c) =
           [EvGet (statusURL e c) True, EvReadAll (statusURL e c) True,
            EvClose (statusURL e c) (\<not> closeErr r')]"
  using assms
  by (auto simp: collectConnector_def statusOf_def statusURL_def Let_def calls_append calls_sends
      split: option.splits)

lemma released_round:
  assumes "statusOf client e c = Some st"
  shows "released None (collectConnector lib client e c)"
  using assms
  by (auto simp: collectConnector_def statusOf_def statusURL_def Let_def released_sends
      split: option.splits)

lemma collectLoop_append:
  "collectLoop lib client e (xs @ ys) = collectLoop lib client e xs @ collectLoop lib client e ys"
  by (induction xs) simp_all

lemma calls_cycle_listed:
  assumes "listing client e = Some cs" and "client (listingURL e) = Some r"
  shows "calls (snd (Collect_metrics lib client e)) =
           [EvGet (listingURL e) True, EvReadAll (listingURL e) True]
           @ calls (collectLoop lib client e cs) @ [EvClose (listingURL e) (\<not> closeErr r)]"
proof -
  obtain p where p: "readAll r = Some p" "Unmarshal_connectors p = Some cs"
    using assms by (auto simp: listing_def split: option.splits)
  show ?thesis
    using Collect_listed [of client e r p cs lib] assms(2) p
    by (simp add: calls_append calls_deferredClose)
qed

lemma last_call_cycle:
  assumes "client (listingURL e) = Some r"
  shows "last (calls (snd (Collect_metrics lib client e))) =
           EvClose (listingURL e) (\<not> closeErr r)"
proof -
  obtain pre e' where "snd (Collect_metrics lib client e) = pre @ deferredClose e' (listingURL e) r"
    using Collect_ends_with_close [of client e r lib] assms by blast
  then show ?thesis by (simp add: calls_append calls_deferredClose)
qed

lemma unreleased_body_on_decode_failure:
  "collectConnector exampleLibrary wrongKind exampleExporter ''test-changesets'' =
     [EvGet ''http://kafka-connect:8083/connectors/test-changesets/status'' True,
      EvReadAll ''http://kafka-connect:8083/connectors/test-changesets/status'' True,
      EvLog ''Can't decode response for: %v'']"
  by (simp add: collectConnector_def example_defs decode_defs lower_eval Let_def)

text \<open>
  C7, as amended. Once the listing request has returned a response, its body is closed
  exactly once and that close is the last call of the cycle, so after all rounds of the
  loop and not before the first connector is fetched; this holds whatever the statuses
  are. For a connector of the listing whose status response is read and decoded, the
  request, the read and the close of its body follow one another among the calls of
  the cycle, so the body is closed before the next connector is fetched. A status body
  whose read or decode fails is not part of this statement;
  \<open>unreleased_body_on_decode_failure\<close> shows such a round, which ends without the close.
\<close>

theorem bodies_closed:
  "(client (listingURL e) = Some r
      \<longrightarrow> closes (listingURL e) (snd (Collect_metrics lib client e)) = 1
          \<and> last (calls (snd (Collect_metrics lib client e))) =
              EvClose (listingURL e) (\<not> closeErr r))
   \<and> (listing client e = Some cs \<and> c \<in> set cs \<and> client (statusURL e c) = Some r'
        \<and> statusOf client e c = Some st
      \<longrightarrow> (\<exists>pre post. calls (snd (Collect_metrics lib client e)) =
             pre @ [EvGet (statusURL e c) True, EvReadAll (statusURL e c) True,
                    EvClose (statusURL e c) (\<not> closeErr r')] @ post))
   \<and> (client (statusURL e c) = Some r' \<and> statusOf client e c = Some st
      \<longrightarrow> calls (collectConnector lib client e c) =
            [EvGet (statusURL e c) True, EvReadAll (statusURL e c) True,
             EvClose (statusURL e c) (\<not> closeErr r')]
          \<and> closes (statusURL e c) (collectConnector lib client e c) = 1
          \<and> released None (collectConnector lib client e c))"
proof (intro conjI impI)
  assume l: "client (listingURL e) = Some r"
  obtain pre e' where p: "snd (Collect_metrics lib client e) = pre @ deferredClose e' (listingURL e) r"
    and z: "closes (listingURL e) pre = 0"
    using Collect_ends_with_close [of client e r lib] l by blast
  show "closes (listingURL e) (snd (Collect_metrics lib client e)) = 1"
    using p z by (simp add: closes_append closes_deferredClose)
  show "last (calls (snd (Collect_metrics lib client e))) = EvClose (listingURL e) (\<not> closeErr r)"
    using l by (rule last_call_cycle)
next
  assume a: "listing client e = Some cs \<and> c \<in> set cs \<and> client (statusURL e c) = Some r'
        \<and> statusOf client e c = Some st"
  then obtain xs ys where cs: "cs = xs @ c # ys"
    by (meson split_list)
  obtain r where r: "client (listingURL e) = Some r"
    using a listing_Some_response by blast
  have round: "calls (collectConnector lib client e c) =
      [EvGet (statusURL e c) True, EvReadAll (statusURL e c) True,
       EvClose (statusURL e c) (\<not> closeErr r')]"
    using a calls_round by blast
  have "calls (snd (Collect_metrics lib client e)) =
      ([EvGet (listingURL e) True, EvReadAll (listingURL e) True] @ calls (collectLoop lib client e xs))
      @ [EvGet (statusURL e c) True, EvReadAll (statusURL e c) True,
         EvClose (statusURL e c) (\<not> closeErr r')]
      @ (calls (collectLoop lib client e ys) @ [EvClose (listingURL e) (\<not> closeErr r)])"
    using a r cs round
    by (simp add: calls_cycle_listed [of client e cs r lib] collectLoop_append calls_append)
  then show "\<exists>pre post. calls (snd (Collect_metrics lib client e)) =
             pre @ [EvGet (statusURL e c) True, EvReadAll (statusURL e c) True,
                    EvClose (statusURL e c) (\<not> closeErr r')] @ post"
    by blast
next
  assume a: "client (statusURL e c) = Some r' \<and> statusOf client e c = Some st"
  show "calls (collectConnector lib client e c) =
            [EvGet (statusURL e c) True, EvReadAll (statusURL e c) True,
             EvClose (statusURL e c) (\<not> closeErr r')]"
    using a calls_round by blast
  show "closes (statusURL e c) (collectConnector lib client e c) = 1"
    using a by (simp add: closes_collectConnector)
  show "released None (collectConnector lib client e c)"
    using a released_round by blast
qed

lemma events_example_cycle:
  "snd (Collect_metrics exampleLibrary (exampleUpstream False) exampleExporter) =
     [EvGet ''http://kafka-connect:8083/connectors'' True,
      EvReadAll ''http://kafka-connect:8083/connectors'' True,
      EvSend (upSample exampleExporter 1),
      EvSend (countSample exampleExporter 1),
      EvGet ''http://kafka-connect:8083/connectors/test-changesets/status'' True,
      EvReadAll ''http://kafka-connect:8083/connectors/test-changesets/status'' True,
      EvSend (MustNewConstMetric isConnectorRunning 1
                [''test-changesets'', ''running'', ''kafka-connect:8083'']),
      EvSend (MustNewConstMetric areConnectorTasksRunning 1
                [''test-changesets'', ''running'', ''kafka-connect:8083'', ''0'']),
      EvClose ''http://kafka-connect:8083/connectors/test-changesets/status'' True,
      EvClose ''http://kafka-connect:8083/connectors'' True]"
proof -
  have l: "exampleUpstream False (listingURL exampleExporter) =
      Some \<lparr>readAll = Some (Document (JArray [JString ''test-changesets''])), closeErr = False\<rparr>"
    by (simp add: example_defs)
  have d: "Unmarshal_connectors (Document (JArray [JString ''test-changesets''])) =
      Some [''test-changesets'']"
    by (simp add: decode_defs)
  have s: "exampleUpstream False ''http://kafka-connect:8083/connectors/test-changesets/status'' =
      Some \<lparr>readAll = Some (Document exampleStatus), closeErr = False\<rparr>"
    by (simp add: example_defs)
  have u: "Unmarshal_status (Document exampleStatus) =
     Some \<lparr>status_Name = ''test-changesets'',
           status_Connector = \<lparr>connector_State = ''RUNNING'', connector_WorkerId = ''kafka-connect:8083''\<rparr>,
           status_Tasks = [\<lparr>task_State = ''running'', task_Id = 0, task_WorkerId = ''kafka-connect:8083''\<rparr>]\<rparr>"
    by (simp add: decode_defs lower_eval)
  have r: "collectConnector exampleLibrary (exampleUpstream False) exampleExporter ''test-changesets'' =
     [EvGet ''http://kafka-connect:8083/connectors/test-changesets/status'' True,
      EvReadAll ''http://kafka-connect:8083/connectors/test-changesets/status'' True,
      EvSend (MustNewConstMetric isConnectorRunning 1
                [''test-changesets'', ''running'', ''kafka-connect:8083'']),
      EvSend (MustNewConstMetric areConnectorTasksRunning 1
                [''test-changesets'', ''running'', ''kafka-connect:8083'', ''0'']),
      EvClose ''http://kafka-connect:8083/connectors/test-changesets/status'' True]"
    using s u
    by (simp add: collectConnector_def exampleExporter_def NewExporter_def connectorMetric_def
        taskMetric_def isRunning_def state_def lower_eval exampleLibrary_def decimal.simps
        digit_def Let_def)
  have lu: "listingURL exampleExporter = ''http://kafka-connect:8083/connectors''"
    by (simp add: example_defs)
  show ?thesis
    using Collect_listed [of "exampleUpstream False" exampleExporter
        "\<lparr>readAll = Some (Document (JArray [JString ''test-changesets''])), closeErr = False\<rparr>"
        "Document (JArray [JString ''test-changesets''])" "[''test-changesets'']" exampleLibrary]
      l d r lu
    by (simp add: deferredClose_def)
qed

text \<open>
  C7 as stated asks that every body is released before the next request. In the
  scenario of the specification, with every call succeeding, the body of the listing
  is still open when the status of the connector is requested.
\<close>

theorem listing_body_open_during_fetch:
  "\<not> released None (snd (Collect_metrics exampleLibrary (exampleUpstream False) exampleExporter))"
  by (simp add: events_example_cycle)

theorem bodies_closed_witness:
  "closes ''http://kafka-connect:8083/connectors''
      (snd (Collect_metrics exampleLibrary brokenListing exampleExporter)) = 1
   \<and> last (calls (snd (Collect_metrics exampleLibrary brokenListing exampleExporter))) =
       EvClose ''http://kafka-connect:8083/connectors'' False
   \<and> calls (snd (Collect_metrics exampleLibrary (exampleUpstream False) exampleExporter)) =
       [EvGet ''http://kafka-connect:8083/connectors'' True,
        EvReadAll ''http://kafka-connect:8083/connectors'' True,
        EvGet ''http://kafka-connect:8083/connectors/test-changesets/status'' True,
        EvReadAll ''http://kafka-connect:8083/connectors/test-changesets/status'' True,
        EvClose ''http://kafka-connect:8083/connectors/test-changesets/status'' True,
        EvClose ''http://kafka-connect:8083/connectors'' True]
   \<and> (\<exists>pre post.
         calls (snd (Collect_metrics exampleLibrary (exampleUpstream False) exampleExporter)) =
           pre @ [EvGet ''http://kafka-connect:8083/connectors/test-changesets/status'' True,
                  EvReadAll ''http://kafka-connect:8083/connectors/test-changesets/status'' True,
                  EvClose ''http://kafka-connect:8083/connectors/test-changesets/status'' True]
               @ post)
   \<and> released None
       (collectConnector exampleLibrary (exampleUpstream False) exampleExporter ''test-changesets'')"
proof -
  have b: "brokenListing (listingURL exampleExporter) =
      Some \<lparr>readAll = Some Malformed, closeErr = True\<rparr>"
    by (simp add: example_defs)
  have s: "exampleUpstream False (statusURL exampleExporter ''test-changesets'') =
      Some \<lparr>readAll = Some (Document exampleStatus), closeErr = False\<rparr>"
    by (simp add: example_defs)
  have u: "listingURL exampleExporter = ''http://kafka-connect:8083/connectors''"
    "statusURL exampleExporter ''test-changesets'' =
       ''http://kafka-connect:8083/connectors/test-changesets/status''"
    by (simp_all add: example_defs)
  note t1 = bodies_closed [where lib = exampleLibrary and client = brokenListing
      and e = exampleExporter and r = "\<lparr>readAll = Some Malformed, closeErr = True\<rparr>"
      and cs = "[]" and c = "''gone''"]
  note t2 = bodies_closed [where lib = exampleLibrary and client = "exampleUpstream False"
      and e = exampleExporter and cs = "[''test-changesets'']" and c = "''test-changesets''"
      and r' = "\<lparr>readAll = Some (Document exampleStatus), closeErr = False\<rparr>"]
  have "closes (listingURL exampleExporter)
      (snd (Collect_metrics exampleLibrary brokenListing exampleExporter)) = 1
    \<and> last (calls (snd (Collect_metrics exampleLibrary brokenListing exampleExporter))) =
       EvClose (listingURL exampleExporter) False"
    using t1 b by simp
  moreover have "(\<exists>pre post.
         calls (snd (Collect_metrics exampleLibrary (exampleUpstream False) exampleExporter)) =
           pre @ [EvGet (statusURL exampleExporter ''test-changesets'') True,
                  EvReadAll (statusURL exampleExporter ''test-changesets'') True,
                  EvClose (statusURL exampleExporter ''test-changesets'') True]
               @ post)
     \<and> released None
       (collectConnector exampleLibrary (exampleUpstream False) exampleExporter ''test-changesets'')"
    using t2 s listing_exampleUpstream [of False] status_exampleUpstream [of False] by simp
  ultimately show ?thesis
    by (simp add: u events_example_cycle)
qed

subsection \<open>What the decoder accepts\<close>

lemma foldOpt_ok:
  assumes "\<And>a m. (f a m \<noteq> None) = ok m"
  shows "(foldOpt f ms a \<noteq> None) = list_all ok ms"
proof (induction ms arbitrary: a)
  case Nil
  show ?case by simp
next
  case (Cons m ms)
  show ?case
  proof (cases "f a m")
    case None
    then have "\<not> ok m" using assms [of a m] by simp
    with None show ?thesis by simp
  next
    case (Some a')
    then have "ok m" using assms [of a m] by simp
    with Some Cons.IH [of a'] show ?thesis by simp
  qed
qed

lemma mapOpt_ok: "(mapOpt f xs \<noteq> None) = list_all (\<lambda>x. f x \<noteq> None) xs"
  by (induction xs) (auto split: option.splits)

lemma unmarshalString_ok: "(unmarshalString cur j \<noteq> None) = stringOrNull j"
  by (cases j) (simp_all add: unmarshalString_def stringOrNull_def)

lemma unmarshalFloat64_ok: "(unmarshalFloat64 cur j \<noteq> None) = floatOrNull j"
  by (cases j) (auto simp: unmarshalFloat64_def floatOrNull_def split: option.splits)

lemma isLetter_lowerByte: "isUpper c \<Longrightarrow> isLetter (lowerByte c)"
  using lowerByte_upper [of c] by (simp add: isUpper_def isLetter_def)

lemma foldName_ascii:
  "(of_char c :: nat) < 128 \<Longrightarrow> foldName (c # cs) = lowerByte c # foldName cs"
  by (auto simp: lowerByte_def isUpper_def)

lemma ascii_match:
  assumes "(of_char sb :: nat) < 128" and "\<not> isUpper sb"
  shows "(sb = tb \<or> (isLetter sb \<and> lowerByte sb = lowerByte tb)) = (lowerByte tb = sb)"
proof -
  have sb: "lowerByte sb = sb" using assms(2) by (rule lowerByte_other)
  show ?thesis
  proof (cases "isUpper tb")
    case True
    then show ?thesis
      using sb assms(2) isLetter_lowerByte [of tb] by auto
  next
    case False
    then show ?thesis using sb by (auto simp: lowerByte_other)
  qed
qed

lemma equalFoldRight_foldName:
  assumes "\<forall>c \<in> set tag. (of_char c :: nat) < 128 \<and> \<not> isUpper c"
  shows "equalFoldRight tag key = (foldName key = tag)"
  using assms
proof (induction tag arbitrary: key)
  case Nil
  show ?case by (cases key) auto
next
  case (Cons sb s)
  have sb: "(of_char sb :: nat) < 128" "\<not> isUpper sb" "lowerByte sb = sb"
    using Cons.prems by (simp_all add: lowerByte_other)
  have IH: "\<And>k. equalFoldRight s k = (foldName k = s)"
    using Cons by simp
  show ?case
  proof (cases key)
    case Nil
    then show ?thesis by simp
  next
    case (Cons tb t)
    show ?thesis
    proof (cases "(of_char tb :: nat) < 128")
      case True
      then show ?thesis
        using Cons sb IH ascii_match [of sb tb]
        by (simp add: foldName_ascii del: foldName.simps(2))
    next
      case False
      then have ne: "tb \<noteq> sb" using sb(1) by auto
      have nu: "\<not> isUpper tb" using False by (simp add: isUpper_def)
      show ?thesis
        using Cons False sb IH ne nu by auto
    qed
  qed
qed

lemma foldName_plain:
  assumes "\<forall>c \<in> set tag. (of_char c :: nat) < 128 \<and> \<not> isUpper c"
  shows "foldName tag = tag"
  using assms by (induction tag) (simp_all add: foldName_ascii lowerByte_other del: foldName.simps(2))

lemma fieldMatches_namesField:
  assumes "\<forall>c \<in> set tag. (of_char c :: nat) < 128 \<and> \<not> isUpper c"
  shows "fieldMatches key tag = namesField key tag"
  using equalFoldRight_foldName [OF assms, of key] foldName_plain [OF assms]
  by (auto simp: fieldMatches_def namesField_def)

lemma tags_match:
  "fieldMatches k ''name'' = namesField k ''name''"
  "fieldMatches k ''connector'' = namesField k ''connector''"
  "fieldMatches k ''tasks'' = namesField k ''tasks''"
  "fieldMatches k ''state'' = namesField k ''state''"
  "fieldMatches k ''worker_id'' = namesField k ''worker_id''"
  "fieldMatches k ''id'' = namesField k ''id''"
  by (rule fieldMatches_namesField, simp add: isUpper_def)+

lemma connectorMember_ok: "(connectorMember c m \<noteq> None) = connectorMemberOk m"
  by (cases m) (simp del: not_None_eq add: connectorMember_def connectorMemberOk_def unmarshalString_ok tags_match)

lemma unmarshalConnector_ok: "(unmarshalConnector cur j \<noteq> None) = connectorOk j"
  by (cases j)
    (simp_all del: not_None_eq add: unmarshalConnector_def connectorOk_def foldOpt_ok [of connectorMember, OF connectorMember_ok])

lemma taskMember_ok: "(taskMember t m \<noteq> None) = taskMemberOk m"
  by (cases m)
    (simp del: not_None_eq add: taskMember_def taskMemberOk_def unmarshalString_ok unmarshalFloat64_ok tags_match)

lemma unmarshalTask_ok: "(unmarshalTask cur j \<noteq> None) = taskOk j"
  by (cases j)
    (simp_all del: not_None_eq add: unmarshalTask_def taskOk_def foldOpt_ok [of taskMember, OF taskMember_ok])

lemma unmarshalTasks_ok: "(unmarshalTasks j \<noteq> None) = tasksOk j"
  by (cases j)
    (simp_all del: not_None_eq add: unmarshalTasks_def tasksOk_def mapOpt_ok unmarshalTask_ok)

lemma statusMember_ok: "(statusMember st m \<noteq> None) = statusMemberOk m"
  by (cases m)
    (simp del: not_None_eq add: statusMember_def statusMemberOk_def unmarshalString_ok unmarshalConnector_ok
      unmarshalTasks_ok tags_match)

lemma unmarshalStatus_ok: "(unmarshalStatus cur j \<noteq> None) = statusOk j"
  by (cases j)
    (simp_all del: not_None_eq add: unmarshalStatus_def statusOk_def foldOpt_ok [of statusMember, OF statusMember_ok])

lemma Unmarshal_status_ok: "(Unmarshal_status p \<noteq> None) = payloadOk p"
  by (cases p) (simp_all del: not_None_eq add: Unmarshal_status_def payloadOk_def unmarshalStatus_ok)

text \<open>
  C6, as amended. A connector whose status response has a readable body is skipped,
  with no sample, exactly when the decoder rejects the body: the bytes are no JSON text,
  or the value at the top level or in a member that names a field is of another kind
  than the field and not \<^verbatim>\<open>null\<close>, or the id is a number out of range. A member names
  a field when its name folds to the tag of the field. A body that leaves members out,
  sets them to \<^verbatim>\<open>null\<close> or has other members is accepted.
\<close>

theorem skipped_iff_rejected:
  assumes "client (statusURL e c) = Some r"
    and "readAll r = Some p"
  shows "(sent (collectConnector f client e c) = []) = (\<not> payloadOk p)"
proof -
  have "statusOf client e c = Unmarshal_status p"
    using assms by (simp add: statusOf_def)
  then show ?thesis
    using Unmarshal_status_ok [of p]
    by (cases "Unmarshal_status p") (simp_all add: sent_collectConnector)
qed

lemmas ok_eval = payloadOk_def statusOk_def statusMemberOk_def namesField_def stringOrNull_def
  connectorOk_def connectorMemberOk_def tasksOk_def taskOk_def taskMemberOk_def floatOrNull_def
  isUpper_def exampleStatus_def notFoundBody_def upperNameBody_def longSBody_def char_of_def
  bit_Suc_0_iff

theorem skipped_iff_rejected_witness:
  "\<not> payloadOk (Document upperNameBody)
   \<and> sent (collectConnector exampleLibrary (statusBody upperNameBody) exampleExporter
             ''test-changesets'') = []
   \<and> \<not> payloadOk (Document longSBody)
   \<and> sent (collectConnector exampleLibrary (statusBody longSBody) exampleExporter
             ''test-changesets'') = []
   \<and> payloadOk (Document notFoundBody)
   \<and> sent (collectConnector exampleLibrary (statusBody notFoundBody) exampleExporter
             ''test-changesets'') \<noteq> []
   \<and> payloadOk (Document exampleStatus)
   \<and> sent (collectConnector exampleLibrary (statusBody exampleStatus) exampleExporter
             ''test-changesets'') \<noteq> []"
proof -
  have b: "statusBody j (statusURL exampleExporter ''test-changesets'') =
      Some \<lparr>readAll = Some (Document j), closeErr = False\<rparr>" for j
    by (simp add: example_defs)
  note t = skipped_iff_rejected [where client = "statusBody j" and e = exampleExporter
      and c = "''test-changesets''" and f = exampleLibrary and p = "Document j"
      and r = "\<lparr>readAll = Some (Document j), closeErr = False\<rparr>" for j]
  have n1: "\<not> payloadOk (Document upperNameBody)" by (simp add: ok_eval)
  have n2: "\<not> payloadOk (Document longSBody)" by (simp add: ok_eval)
  have y1: "payloadOk (Document notFoundBody)" by (simp add: ok_eval)
  have y2: "payloadOk (Document exampleStatus)" by (simp add: ok_eval)
  show ?thesis
    using t [of upperNameBody] t [of longSBody] t [of notFoundBody] t [of exampleStatus]
      b n1 n2 y1 y2
    by simp
qed

text \<open>
  C6 as stated asks that a body which deviates from the shape of a status is a decode
  failure. The body of the upstream's 404 response is an object without any of the
  members of a status; it decodes to the zero status, and the round sends a connector
  sample with empty labels and value 0.
\<close>

theorem not_found_body_yields_sample:
  "\<not> statusShape notFoundBody
   \<and> sent (collectConnector exampleLibrary notFound exampleExporter ''gone'') =
       [MustNewConstMetric isConnectorRunning 0 [[], [], []]]"
proof -
  have "\<not> statusShape notFoundBody"
    by (simp add: statusShape_def notFoundBody_def hasMember_def)
  then show ?thesis
    by (simp add: sent_collectConnector status_notFound zeroStatus_def zeroConnector_def
        sample_eval lower_eval)
qed

end
